theory Spec2Isabelle
  imports Main "HOL-Library.AList"
begin

section \<open>JavaScript values\<close>

text \<open>
  The template library is written in JavaScript and passes untyped values around: a
  template record, its \<open>data\<close>, \<open>locals\<close> and \<open>options\<close> are plain objects, an
  extension is a string or \<open>undefined\<close>.  A value is modelled by \<open>jsval\<close>; a plain object
  is an association list read with \<open>map_of\<close>, so the first binding of a key is the
  property.  A function value carries a label only (its source text, which is what
  string conversion yields).  Numbers are integers; arrays are left out, no function
  modelled below reads one.  A thrown exception is a \<open>js_error\<close>.
\<close>

datatype js_error = Error string | TypeError string

datatype jsval =
    Undefined
  | Null
  | JBool bool
  | JNum int
  | JStr string
  | JFun string
  | JErr js_error
  | JObj "(string \<times> jsval) list"

section \<open>The state of a Template instance\<close>

text \<open>
  The engine registry \<open>this._.engines\<close> hands out the engine objects themselves, and
  \<open>getEngine\<close> writes to the object it is handed.  One engine object can be registered
  under several extensions, and an engine can be a function that carries properties.
  The objects of the registry are therefore kept in a store, by address.  A property
  of a stored object holds a primitive value or the address of a stored object;
  \<open>source\<close> is the source text of a stored function, and \<open>None\<close> for an object that is
  no function.  The properties are the own properties: what an object inherits from a
  prototype is not kept.
\<close>

type_synonym ref = nat

datatype engine_val =
    EUndefined
  | ENull
  | EBool bool
  | ENum int
  | EStr string
  | ERef ref

record engine_object =
  source :: "string option"
  props :: "(string \<times> engine_val) list"

type_synonym store = "ref \<Rightarrow> engine_object"

text \<open>
  The fields of \<open>this\<close> that the functions below read or write (index.js:64-107):
  \<open>this.options\<close>, \<open>this.cache\<close>, the engine registry \<open>this._.engines\<close>, the helper
  registry \<open>this._.helpers\<close>, \<open>this.layoutSettings\<close>, \<open>this.delims\<close>,
  \<open>this.currentDelims\<close>, \<open>this.templateType\<close>, the
  accessor methods that \<open>create\<close> puts on the prototype, and the lines written to the
  console.  \<open>viewType\<close> is read by \<open>utils.pickCached\<close>; index.js never assigns it.
  \<open>engines\<close> is the address of the registry object, whose own properties are the
  registered extensions, and \<open>heap\<close> is the store of the objects reachable from it.
\<close>

record template_types =
  partial :: "string list"
  renderable :: "string list"
  layout :: "string list"

datatype helper =
    DefaultHelper string string
  | DefaultAsyncHelper string string
  | UserHelper string

record template_state =
  options :: "(string \<times> jsval) list"
  cache :: "(string \<times> jsval) list"
  engines :: ref
  heap :: store
  helpers :: "(string \<times> helper) list"
  layoutSettings :: "(string \<times> jsval) list"
  delims :: "(string \<times> jsval) list"
  currentDelims :: jsval
  templateType :: template_types
  viewType :: "template_types option"
  methods :: "string list"
  console :: "string list"

section \<open>What index.js calls outside its own code\<close>

text \<open>
  index.js calls the packages layouts, engine-cache, helper-cache, delims,
  load-templates and uniqueid.  Each call that leaves the two source files is a
  parameter that returns a value or throws, so a theorem holds whatever it does:
  \<^item> \<open>uniqueId o\<close>: the uniqueid package, called by \<open>utils.generateId\<close>;
  \<^item> \<open>layout_render l c n o\<close>: \<open>l.render(c, n, o)\<close> of the Layouts instance \<open>l\<close>;
  \<^item> \<open>engines_get h r e\<close>: the address of the object that \<open>this._.engines.get(e)\<close>
    returns, in the store \<open>h\<close> with the registry at \<open>r\<close>; \<open>None\<close> when it returns no
    object;
  \<^item> \<open>engine_render h g c l\<close>: what \<open>g.render(c, l, callback)\<close> does before it returns,
    for the engine at \<open>g\<close>: throw, call the callback with an error and a result, or
    neither;
  \<^item> \<open>engine_renderSync h g c l\<close>: \<open>g.renderSync(c, l)\<close>;
  \<^item> \<open>helpers_resolve r\<close>: what \<open>this._.helpers.resolve(r, cb)\<close> does with \<open>cb\<close>;
  \<^item> \<open>mergeFn_option f st t l\<close>: the call of a merge function \<open>f\<close> set by the user;
  \<^item> \<open>format st k t l\<close>: \<open>this.format(k, t, l)\<close> (index.js:1034), which runs the loader
    and the normalization of index.js:985 with its parsers and returns the record it
    stored under \<open>k\<close>;
  \<^item> \<open>addDelims st e d\<close>: \<open>this.addDelims(e, d)\<close> (index.js:377), which asks the delims
    package for the matching rules and stores them.
\<close>

datatype call_outcome = Throws js_error | Calls_back jsval jsval | No_call

record preprocessed =
  pre_content :: jsval
  pre_engine :: ref
  pre_locals :: jsval

record externals =
  uniqueId :: "jsval \<Rightarrow> jsval"
  layout_render :: "jsval \<Rightarrow> jsval \<Rightarrow> jsval \<Rightarrow> jsval \<Rightarrow> js_error + jsval"
  engines_get :: "store \<Rightarrow> ref \<Rightarrow> jsval \<Rightarrow> ref option"
  engine_render :: "store \<Rightarrow> ref \<Rightarrow> jsval \<Rightarrow> jsval \<Rightarrow> call_outcome"
  engine_renderSync :: "store \<Rightarrow> ref \<Rightarrow> jsval \<Rightarrow> jsval \<Rightarrow> js_error + jsval"
  helpers_resolve :: "jsval \<Rightarrow> call_outcome"
  mergeFn_option ::
    "jsval \<Rightarrow> template_state \<Rightarrow> jsval \<Rightarrow> jsval \<Rightarrow> (js_error + jsval) \<times> template_state"
  format ::
    "template_state \<Rightarrow> jsval \<Rightarrow> jsval \<Rightarrow> jsval \<Rightarrow> (js_error + jsval) \<times> template_state"
  addDelims ::
    "template_state \<Rightarrow> jsval \<Rightarrow> jsval \<Rightarrow> (js_error + unit) \<times> template_state"

section \<open>Reading and merging values\<close>

text \<open>\<open>utils.typeOf\<close> (lib/utils.js:42): the lower-cased class name of the value.\<close>

fun typeOf :: "jsval \<Rightarrow> string" where
  "typeOf Undefined = ''undefined''"
| "typeOf Null = ''null''"
| "typeOf (JBool b) = ''boolean''"
| "typeOf (JNum n) = ''number''"
| "typeOf (JStr s) = ''string''"
| "typeOf (JFun f) = ''function''"
| "typeOf (JErr e) = ''error''"
| "typeOf (JObj kvs) = ''object''"

definition isString :: "jsval \<Rightarrow> bool" where
  "isString val = (typeOf val = ''string'')"

definition isObject :: "jsval \<Rightarrow> bool" where
  "isObject val = (typeOf val = ''object'')"

text \<open>The truth value JavaScript gives a value in \<open>if (v)\<close>, \<open>a || b\<close> and \<open>!v\<close>.\<close>

fun truthy :: "jsval \<Rightarrow> bool" where
  "truthy Undefined = False"
| "truthy Null = False"
| "truthy (JBool b) = b"
| "truthy (JNum n) = (n \<noteq> 0)"
| "truthy (JStr s) = (s \<noteq> [])"
| "truthy (JFun f) = True"
| "truthy (JErr e) = True"
| "truthy (JObj kvs) = True"

text \<open>
  \<open>get_prop v k\<close> is the property read \<open>v[k]\<close> on a value where the read does not throw;
  reads on \<open>undefined\<close> and \<open>null\<close>, which throw, are written out where they occur.
  \<open>hasOwn\<close> is lodash's \<open>_.has\<close> (lib/utils.js:27) on the keys used here, none of which
  is an own property of a string, a number or a function.
\<close>

fun get_prop :: "jsval \<Rightarrow> string \<Rightarrow> jsval" where
  "get_prop (JObj kvs) k = (case map_of kvs k of Some v \<Rightarrow> v | None \<Rightarrow> Undefined)"
| "get_prop v k = Undefined"

fun hasOwn :: "jsval \<Rightarrow> string \<Rightarrow> bool" where
  "hasOwn (JObj kvs) k = (map_of kvs k \<noteq> None)"
| "hasOwn v k = False"

fun own_props :: "jsval \<Rightarrow> (string \<times> jsval) list" where
  "own_props (JObj kvs) = kvs"
| "own_props v = []"

fun set_prop :: "string \<Rightarrow> jsval \<Rightarrow> jsval \<Rightarrow> jsval" where
  "set_prop k v (JObj kvs) = JObj (AList.update k v kvs)"
| "set_prop k v w = w"

fun digit_char :: "nat \<Rightarrow> char" where
  "digit_char n = char_of (48 + n)"

function decimal :: "nat \<Rightarrow> string" where
  "decimal n = (if n < 10 then [digit_char n] else decimal (n div 10) @ [digit_char (n mod 10)])"
  by pat_completeness auto
termination
  by (relation "measure id") auto

text \<open>String conversion, as in \<open>'.' + ext\<close> and in a property key \<open>o[v]\<close>.\<close>

fun to_str :: "jsval \<Rightarrow> string" where
  "to_str Undefined = ''undefined''"
| "to_str Null = ''null''"
| "to_str (JBool b) = (if b then ''true'' else ''false'')"
| "to_str (JNum n) = (if n < 0 then ''-'' @ decimal (nat (- n)) else decimal (nat n))"
| "to_str (JStr s) = s"
| "to_str (JFun f) = f"
| "to_str (JErr (Error m)) = ''Error: '' @ m"
| "to_str (JErr (TypeError m)) = ''TypeError: '' @ m"
| "to_str (JObj kvs) = ''[object Object]''"

text \<open>
  lodash's \<open>_.extend(dest, s1, .., sn)\<close>: a falsy destination is returned as it is;
  otherwise the own properties of each source that is an object are assigned to the
  destination in turn, so a later source wins.  \<open>_.defaults\<close> assigns a property only
  while the destination's value for the key is \<open>undefined\<close>, so an earlier source wins.
\<close>

definition extend :: "jsval \<Rightarrow> jsval list \<Rightarrow> jsval" where
  "extend dest sources =
     (case dest of
        JObj d \<Rightarrow> JObj (foldl (\<lambda>acc s. AList.merge acc (own_props s)) d sources)
      | _ \<Rightarrow> dest)"

definition defaults1 :: "(string \<times> jsval) list \<Rightarrow> (string \<times> jsval) list \<Rightarrow> (string \<times> jsval) list" where
  "defaults1 d s =
     foldr (\<lambda>k acc. if get_prop (JObj acc) k = Undefined then AList.update k (get_prop (JObj s) k) acc else acc)
       (map fst s) d"

definition defaults :: "jsval \<Rightarrow> jsval list \<Rightarrow> jsval" where
  "defaults dest sources =
     (case dest of
        JObj d \<Rightarrow> JObj (foldl (\<lambda>acc s. defaults1 acc (own_props s)) d sources)
      | _ \<Rightarrow> dest)"

text \<open>\<open>this.option(key)\<close> reads \<open>this.options[key]\<close>.\<close>

definition option :: "template_state \<Rightarrow> string \<Rightarrow> jsval" where
  "option st key = get_prop (JObj (options st)) key"

text \<open>
  Reading and writing the own properties of a stored object: \<open>a[k]\<close>,
  \<open>hasOwnProperty\<close> (lodash's \<open>_.has\<close> on an object), and the assignment \<open>a[k] = v\<close>.
  A value can be called when it is the address of a stored function.  String
  conversion gives a function's source text and \<open>[object Object]\<close> for any other object.
\<close>

definition read_prop :: "store \<Rightarrow> ref \<Rightarrow> string \<Rightarrow> engine_val" where
  "read_prop h a k = (case map_of (props (h a)) k of Some v \<Rightarrow> v | None \<Rightarrow> EUndefined)"

definition has_own :: "store \<Rightarrow> ref \<Rightarrow> string \<Rightarrow> bool" where
  "has_own h a k = (map_of (props (h a)) k \<noteq> None)"

definition write_prop :: "store \<Rightarrow> ref \<Rightarrow> string \<Rightarrow> engine_val \<Rightarrow> store" where
  "write_prop h a k v = h(a := (h a)\<lparr>props := AList.update k v (props (h a))\<rparr>)"

definition callable :: "store \<Rightarrow> engine_val \<Rightarrow> bool" where
  "callable h v = (case v of ERef f \<Rightarrow> source (h f) \<noteq> None | _ \<Rightarrow> False)"

definition object_to_str :: "store \<Rightarrow> ref \<Rightarrow> string" where
  "object_to_str h a = (case source (h a) of Some src \<Rightarrow> src | None \<Rightarrow> ''[object Object]'')"

section \<open>lib/utils.js\<close>

text \<open>\<open>utils.formatExt\<close> (lib/utils.js:626).  \<open>ext[0]\<close> is the first character of a string.\<close>

fun index0 :: "jsval \<Rightarrow> jsval" where
  "index0 (JStr (c # cs)) = JStr [c]"
| "index0 (JObj kvs) = get_prop (JObj kvs) ''0''"
| "index0 v = Undefined"

definition formatExt :: "jsval \<Rightarrow> jsval" where
  "formatExt ext = (if truthy ext \<and> index0 ext \<noteq> JStr ''.'' then JStr (''.'' @ to_str ext) else ext)"

text \<open>
  \<open>utils.pickExt\<close> (lib/utils.js:299).  Each \<open>if (ext = e) return ...\<close> tests the
  truth value of \<open>e\<close>; the first test returns \<open>template.ext\<close>, not the engine it has
  just read.  \<open>thisArg\<close> is \<open>None\<close> where the caller passes no third argument, and
  \<open>thisArg.option\<close> then throws.
\<close>

definition pickExt :: "jsval \<Rightarrow> jsval \<Rightarrow> template_state option \<Rightarrow> js_error + jsval" where
  "pickExt template0 options0 thisArg =
     (let options1 = extend (JObj []) [options0];
          template1 = extend (JObj []) [template0];
          template2 = set_prop ''options'' (extend (JObj []) [get_prop template1 ''options'']) template1;
          fallback =
            (case thisArg of
               None \<Rightarrow> Inl (TypeError ''Cannot read property option of undefined'')
             | Some st \<Rightarrow>
                 (let ext = option st ''viewEngine''
                  in Inr (if truthy ext then formatExt ext else ext)))
      in if isObject template0 then
           (if truthy (get_prop template2 ''engine'') then Inr (get_prop template2 ''ext'')
            else if truthy (get_prop template2 ''ext'') then Inr (get_prop template2 ''ext'')
            else if truthy (get_prop (get_prop template2 ''options'') ''engine'')
              then Inr (get_prop (get_prop template2 ''options'') ''engine'')
            else if truthy (get_prop (get_prop template2 ''options'') ''ext'')
              then Inr (get_prop (get_prop template2 ''options'') ''ext'')
            else if truthy (get_prop options1 ''engine'') then Inr (get_prop options1 ''engine'')
            else if truthy (get_prop options1 ''ext'') then Inr (get_prop options1 ''ext'')
            else fallback)
         else fallback)"

text \<open>
  \<open>utils.pickFrom\<close>: lib/utils.js assigns it twice (lines 168 and 420); the second
  assignment is the one in force.  It answers the record's own \<open>key\<close> when the record
  has one, else the \<open>key\<close> of the first property in \<open>arr\<close> that has one.  When no
  property has it, it returns \<open>val\<close>, which by then holds the last property of \<open>arr\<close>
  the record has.
\<close>

fun pickFrom_loop :: "jsval \<Rightarrow> string \<Rightarrow> string list \<Rightarrow> jsval \<Rightarrow> jsval" where
  "pickFrom_loop value0 key [] val = val"
| "pickFrom_loop value0 key (p # ps) val =
     (if hasOwn value0 p then
        (let val1 = get_prop value0 p
         in if hasOwn val1 key then get_prop val1 key else pickFrom_loop value0 key ps val1)
      else pickFrom_loop value0 key ps val)"

definition pickFrom :: "jsval \<Rightarrow> string \<Rightarrow> string list \<Rightarrow> jsval" where
  "pickFrom value0 key arr =
     (if \<not> isObject value0 then Null
      else if hasOwn value0 key then get_prop value0 key
      else if length arr = 0 then Null
      else pickFrom_loop value0 key arr Null)"

text \<open>\<open>utils.pickLayout\<close> (lib/utils.js:133) takes one argument; callers that pass more are ignored.\<close>

definition pickLayout :: "jsval \<Rightarrow> jsval" where
  "pickLayout value0 = pickFrom value0 ''layout'' [''data'', ''locals'', ''options'']"

text \<open>
  \<open>utils.pickContent\<close> (lib/utils.js:146) with \<open>utils.basePick\<close>; \<open>pick1\<close> is the
  object-pick package on one key: the object holding that key alone, if the value has it.
\<close>

definition pick1 :: "jsval \<Rightarrow> string \<Rightarrow> jsval" where
  "pick1 o1 k = (if hasOwn o1 k then JObj [(k, get_prop o1 k)] else JObj [])"

definition basePick :: "jsval \<Rightarrow> string \<Rightarrow> jsval" where
  "basePick o1 k = (if o1 = Undefined \<or> o1 = Null then JObj [] else pick1 o1 k)"

definition pickContent :: "jsval \<Rightarrow> jsval" where
  "pickContent file = (if isString file then file else basePick file ''content'')"

text \<open>
  \<open>utils.pickCached\<close> (lib/utils.js:212) has three parameters and reads the renderable
  types from \<open>thisArg.viewType\<close>.  \<open>thisArg\<close> is \<open>None\<close> when the caller passes two
  arguments.
\<close>

fun pickCached_loop :: "(string \<times> jsval) list \<Rightarrow> string \<Rightarrow> string list \<Rightarrow> js_error + jsval" where
  "pickCached_loop c name [] = Inr Null"
| "pickCached_loop c name (t # ts) =
     (let coll = get_prop (JObj c) t
      in if coll = Undefined \<or> coll = Null
         then Inl (TypeError ''Cannot call method hasOwnProperty of undefined'')
         else if hasOwn coll name then Inr (get_prop coll name)
         else pickCached_loop c name ts)"

definition pickCached :: "jsval \<Rightarrow> 'a \<Rightarrow> template_state option \<Rightarrow> js_error + jsval" where
  "pickCached file locals thisArg =
     (if \<not> isString file then Inr Null
      else case thisArg of
             None \<Rightarrow> Inl (TypeError ''Cannot read property viewType of undefined'')
           | Some st \<Rightarrow>
               (case viewType st of
                  None \<Rightarrow> Inl (TypeError ''Cannot read property renderable of undefined'')
                | Some vt \<Rightarrow> pickCached_loop (cache st) (to_str file) (renderable vt)))"

text \<open>
  index.js calls \<open>utils.isPartial\<close> (index.js:318), \<open>utils.isLayout\<close> (index.js:1001),
  \<open>utils.pickPartial\<close> (index.js:1107) and \<open>utils.pickDelims\<close> (index.js:1122).
  lib/utils.js assigns none of these names, and no line of index.js adds to \<open>utils\<close>:
  each of these calls is a call of \<open>undefined\<close>, which throws a TypeError.
\<close>

definition missing_util :: js_error where
  "missing_util = TypeError ''undefined is not a function''"

definition isPartial :: "jsval \<Rightarrow> js_error + bool" where
  "isPartial template0 = Inl missing_util"

definition pickPartial :: "jsval \<Rightarrow> template_state \<Rightarrow> js_error + jsval" where
  "pickPartial template0 thisArg = Inl missing_util"

definition pickDelims :: "jsval \<Rightarrow> jsval \<Rightarrow> js_error + jsval" where
  "pickDelims template0 locals = Inl missing_util"

text \<open>\<open>utils.generateId\<close> (lib/utils.js:458).\<close>

definition generateId :: "externals \<Rightarrow> jsval \<Rightarrow> jsval" where
  "generateId env options0 =
     (let opts = (if truthy options0 then options0 else JObj [])
      in if truthy (get_prop opts ''id'') then get_prop opts ''id''
         else uniqueId env
                (JObj [(''prefix'', if truthy (get_prop opts ''prefix'') then get_prop opts ''prefix''
                                    else JStr ''__id__''),
                       (''append'', if truthy (get_prop opts ''append'') then get_prop opts ''append''
                                    else JStr [])]))"

section \<open>index.js\<close>

text \<open>The \<open>typeof\<close> operator, the double quote of an error message, and \<open>toUpperCase\<close> on a letter.\<close>

fun typeof :: "jsval \<Rightarrow> string" where
  "typeof Undefined = ''undefined''"
| "typeof (JBool b) = ''boolean''"
| "typeof (JNum n) = ''number''"
| "typeof (JStr s) = ''string''"
| "typeof (JFun f) = ''function''"
| "typeof v = ''object''"

definition dq :: string where
  "dq = [CHR 0x22]"

definition toUpperCase :: "char \<Rightarrow> char" where
  "toUpperCase c =
     (case map_of (zip ''abcdefghijklmnopqrstuvwxyz'' ''ABCDEFGHIJKLMNOPQRSTUVWXYZ'') c of
        Some u \<Rightarrow> u
      | None \<Rightarrow> c)"

text \<open>\<open>this._.helpers\<close> as the object whose own properties are the registered helpers.\<close>

definition helpers_object :: "template_state \<Rightarrow> jsval" where
  "helpers_object st = JObj (map (\<lambda>(name, h). (name, JFun name)) (helpers st))"

text \<open>
  \<open>Template.prototype.extendLocals\<close> (index.js:1220).  The copy is a new object; writing
  \<open>template._locals[key]\<close> throws when the record brought a \<open>_locals\<close> that is no object.
\<close>

definition extendLocals :: "string \<Rightarrow> jsval \<Rightarrow> jsval \<Rightarrow> js_error + jsval" where
  "extendLocals key template0 locals =
     (let template1 = extend (JObj [(''_locals'', JObj [])]) [template0];
          l = get_prop template1 ''_locals''
      in if isObject l
         then Inr (set_prop ''_locals'' (set_prop key (extend (JObj []) [get_prop l key, locals]) l) template1)
         else Inl (TypeError ''Cannot set property of _locals''))"

text \<open>
  \<open>Template.prototype.applyLayout\<close> (index.js:307).  The result is the returned content
  (or the exception) and the record as the call leaves it: \<open>template.options.hasLayout\<close>
  is set before anything else is called (\<open>setHasLayout\<close> is that assignment).
  \<open>template.options\<close> is read only when a layout engine is registered for \<open>ext\<close>; the
  read and the write throw unless \<open>template.options\<close> is a plain object (index.js runs
  in strict mode, where a write to a property of a primitive throws).  The call of
  \<open>utils.isPartial\<close> comes next, before the layout is picked and the layout engine is
  called.
\<close>

definition setHasLayout :: "jsval \<Rightarrow> jsval" where
  "setHasLayout template0 =
     set_prop ''options'' (set_prop ''hasLayout'' (JBool True) (get_prop template0 ''options'')) template0"

definition applyLayout ::
  "externals \<Rightarrow> template_state \<Rightarrow> jsval \<Rightarrow> jsval \<Rightarrow> jsval \<Rightarrow> (js_error + jsval) \<times> jsval" where
  "applyLayout env st ext template0 locals =
     (let layoutEngine = get_prop (JObj (layoutSettings st)) (to_str ext);
          obj = pickContent template0
      in if truthy layoutEngine then
           (if \<not> (isObject template0 \<and> isObject (get_prop template0 ''options''))
            then (Inl (TypeError ''Cannot read property hasLayout of undefined''), template0)
            else if \<not> truthy (get_prop (get_prop template0 ''options'') ''hasLayout'') then
              (let template1 = setHasLayout template0
               in case isPartial template1 of
                    Inl e \<Rightarrow> (Inl e, template1)
                  | Inr part \<Rightarrow>
                      (let opts = (if part then JObj [(''defaultLayout'', JBool False)] else JObj []);
                           layout1 = pickLayout template1
                       in case layout_render env layoutEngine (get_prop obj ''content'') layout1 opts of
                            Inl e \<Rightarrow> (Inl e, template1)
                          | Inr result \<Rightarrow>
                              (if result = Undefined \<or> result = Null
                               then (Inl (TypeError ''Cannot read property content of undefined''), template1)
                               else (Inr (get_prop result ''content''), template1))))
            else (Inr (get_prop obj ''content''), template0))
         else (Inr (get_prop obj ''content''), template0))"

text \<open>
  \<open>Template.prototype.getEngine\<close> (index.js:741).  The engine is the object that the
  registry hands out, and the assignment \<open>engine.options.thisArg = null\<close> writes to the
  object that its \<open>options\<close> property refers to: every engine that shares that object
  sees the write.  The result is the address of the engine.  Reading \<open>options\<close> of
  \<open>undefined\<close> throws, and so does the write when \<open>engine.options\<close> is no object
  (\<open>undefined\<close>, \<open>null\<close>, or a primitive in strict mode).
\<close>

definition getEngine ::
  "externals \<Rightarrow> template_state \<Rightarrow> jsval \<Rightarrow> (js_error + ref) \<times> template_state" where
  "getEngine env st ext =
     (case engines_get env (heap st) (engines st) ext of
        None \<Rightarrow> (Inl (TypeError ''Cannot read property options of undefined''), st)
      | Some engine \<Rightarrow>
          (case read_prop (heap st) engine ''options'' of
             ERef opts \<Rightarrow> (Inr engine, st\<lparr>heap := write_prop (heap st) opts ''thisArg'' ENull\<rparr>)
           | _ \<Rightarrow> (Inl (TypeError ''Cannot set property thisArg of undefined''), st)))"

text \<open>
  \<open>Template.prototype.mergeFn\<close> (index.js:1235).  \<open>this.get('data')\<close> is
  \<open>this.cache.data\<close>, and \<open>extend(data, o, locals)\<close> writes into that object: the merged
  context is also the new \<open>this.cache.data\<close>.
\<close>

definition mergeFn ::
  "externals \<Rightarrow> template_state \<Rightarrow> jsval \<Rightarrow> jsval \<Rightarrow> (js_error + jsval) \<times> template_state" where
  "mergeFn env st template0 locals =
     (let data = get_prop (JObj (cache st)) ''data'';
          o0 = JObj []
      in if truthy (option st ''mergeFn'')
         then mergeFn_option env (option st ''mergeFn'') st template0 locals
         else
           (let o1 =
                  (if isObject template0 then
                     (if option st ''preferLocals'' = JBool True
                      then defaults (JObj []) [o0, get_prop template0 ''locals'', get_prop template0 ''data'']
                      else defaults (JObj []) [o0, get_prop template0 ''data'', get_prop template0 ''locals''])
                   else o0);
                o2 = set_prop ''helpers'' (extend (JObj []) [helpers_object st, get_prop o1 ''helpers'']) o1;
                merged = extend data [o2, locals]
            in (Inr merged,
                if isObject data then st\<lparr>cache := AList.update ''data'' merged (cache st)\<rparr> else st)))"

text \<open>\<open>Template.prototype.trackType\<close> (index.js:855).\<close>

definition trackType :: "template_state \<Rightarrow> string \<Rightarrow> jsval \<Rightarrow> template_state" where
  "trackType st plural options0 =
     (let opts = extend (JObj []) [options0];
          ty0 = templateType st;
          ty1 = (if truthy (get_prop opts ''isRenderable'')
                 then ty0\<lparr>renderable := renderable ty0 @ [plural]\<rparr> else ty0);
          ty2 = (if truthy (get_prop opts ''isLayout'')
                 then ty1\<lparr>layout := layout ty1 @ [plural]\<rparr> else ty1);
          ty3 = (if truthy (get_prop opts ''isPartial'')
                    \<or> (\<not> truthy (get_prop opts ''isRenderable'') \<and> \<not> truthy (get_prop opts ''isLayout''))
                 then ty2\<lparr>partial := partial ty2 @ [plural]\<rparr> else ty2)
      in st\<lparr>templateType := ty3\<rparr>)"

text \<open>
  \<open>Template.prototype.defaultHelpers\<close> (index.js:215) registers the synchronous helper
  of a type; \<open>defaultAsyncHelpers\<close> (index.js:232) would register the asynchronous one.
\<close>

definition defaultHelpers :: "template_state \<Rightarrow> string \<Rightarrow> string \<Rightarrow> template_state" where
  "defaultHelpers st type plural = st\<lparr>helpers := AList.update type (DefaultHelper type plural) (helpers st)\<rparr>"

definition defaultAsyncHelpers :: "template_state \<Rightarrow> string \<Rightarrow> string \<Rightarrow> template_state" where
  "defaultAsyncHelpers st type plural =
     st\<lparr>helpers := AList.update type (DefaultAsyncHelper type plural) (helpers st)\<rparr>"

text \<open>
  \<open>Template.prototype.create\<close> (index.js:912).  The only test on \<open>plural\<close> is
  \<open>typeof plural !== 'string'\<close>.  The collection, the type and the two accessors are in
  place before \<open>type[0].toUpperCase()\<close> is evaluated, which throws unless \<open>type\<close> is a
  non-empty string.  The call that would register the asynchronous helper is commented
  out in the source (index.js:942-944).
\<close>

definition create ::
  "template_state \<Rightarrow> jsval \<Rightarrow> jsval \<Rightarrow> jsval \<Rightarrow> (js_error + unit) \<times> template_state" where
  "create st type plural options0 =
     (if typeof plural \<noteq> ''string''
      then (Inl (Error (''A plural form must be defined for: '' @ dq @ to_str type @ dq @ ''.'')), st)
      else
        (let p = to_str plural;
             c = get_prop (JObj (cache st)) p;
             st1 = st\<lparr>cache := AList.update p (if truthy c then c else JObj []) (cache st)\<rparr>;
             st2 = trackType st1 p options0;
             st3 = st2\<lparr>methods := methods st2 @ [to_str type, p]\<rparr>
         in case type of
              JStr (t # ts) \<Rightarrow>
                (let name = toUpperCase t # ts;
                     st4 = st3\<lparr>methods := methods st3 @ [''get'' @ name]\<rparr>;
                     st5 = (if \<not> hasOwn (helpers_object st4) (t # ts)
                            then defaultHelpers st4 (t # ts) p else st4)
                 in (Inr (), st5))
            | _ \<Rightarrow> (Inl (TypeError ''Cannot call method toUpperCase of undefined''), st3)))"

text \<open>
  \<open>Template.prototype.getDelims\<close> (index.js:401).
\<close>

definition getDelims :: "template_state \<Rightarrow> jsval \<Rightarrow> jsval" where
  "getDelims st ext =
     (if hasOwn (JObj (delims st)) (to_str ext) then get_prop (JObj (delims st)) (to_str ext)
      else get_prop (JObj (delims st))
             (to_str (if truthy (currentDelims st) then currentDelims st else JStr ''default'')))"

text \<open>
  \<open>Template.prototype.mergePartials\<close> (index.js:1057).  For every record of every
  partial type, in turn: the record's content becomes what \<open>applyLayout\<close> returns, the
  record's \<open>data\<close> and then its \<open>locals\<close> are merged over the options gathered so far,
  and the content is stored under the record's key in \<open>opts.partials\<close> (or in
  \<open>opts[type]\<close>).  The records are objects of the cache and are changed in place;
  \<open>mergePartials_each\<close> returns the collection as the loop leaves it.  A collection
  that is no object is not walked.
\<close>

fun mergePartials_each ::
  "externals \<Rightarrow> template_state \<Rightarrow> jsval \<Rightarrow> bool \<Rightarrow> string \<Rightarrow> (string \<times> jsval) list \<Rightarrow> jsval \<Rightarrow> jsval
     \<Rightarrow> (js_error + jsval) \<times> jsval" where
  "mergePartials_each env st ext combine type [] coll opts = (Inr opts, coll)"
| "mergePartials_each env st ext combine type ((key, value0) # rest) coll opts =
     (if \<not> isObject value0 then (Inl (TypeError ''Cannot assign to property content''), coll)
      else
        (case applyLayout env st ext value0 (get_prop value0 ''locals'') of
           (Inl e, value1) \<Rightarrow> (Inl e, set_prop key value1 coll)
         | (Inr c, value1) \<Rightarrow>
             (let value2 = set_prop ''content'' c value1;
                  coll1 = set_prop key value2 coll;
                  opts1 = extend (JObj []) [opts, get_prop value2 ''data'', get_prop value2 ''locals''];
                  slot = (if combine then ''partials'' else type)
              in if isObject (get_prop opts1 slot)
                 then mergePartials_each env st ext combine type rest coll1
                        (set_prop slot (set_prop key c (get_prop opts1 slot)) opts1)
                 else (Inl (TypeError ''Cannot set property of undefined''), coll1))))"

fun mergePartials_types ::
  "externals \<Rightarrow> template_state \<Rightarrow> jsval \<Rightarrow> bool \<Rightarrow> string list \<Rightarrow> jsval
     \<Rightarrow> (js_error + jsval) \<times> template_state" where
  "mergePartials_types env st ext combine [] opts = (Inr opts, st)"
| "mergePartials_types env st ext combine (type # types) opts =
     (let coll = get_prop (JObj (cache st)) type
      in case mergePartials_each env st ext combine type (own_props coll) coll opts of
           (Inl e, coll1) \<Rightarrow>
             (Inl e, if isObject coll then st\<lparr>cache := AList.update type coll1 (cache st)\<rparr> else st)
         | (Inr opts1, coll1) \<Rightarrow>
             mergePartials_types env
               (if isObject coll then st\<lparr>cache := AList.update type coll1 (cache st)\<rparr> else st)
               ext combine types opts1)"

definition mergePartials ::
  "externals \<Rightarrow> template_state \<Rightarrow> jsval \<Rightarrow> jsval \<Rightarrow> jsval \<Rightarrow> (js_error + jsval) \<times> template_state" where
  "mergePartials env st ext locals combine0 =
     (let combine = (if truthy combine0 then combine0 else option st ''mergePartials'');
          opts = extend (JObj [(''partials'', JObj [])]) [locals]
      in mergePartials_types env st ext (truthy combine) (partial (templateType st)) opts)"

text \<open>
  \<open>Template.prototype.preprocess\<close> (index.js:1090).  The lookup passes two arguments to
  \<open>utils.pickCached\<close>, so its \<open>thisArg\<close> is \<open>undefined\<close>.  \<open>mergePartials\<close> is called with
  the merged locals alone, which it takes for its \<open>ext\<close>.  When an engine is named in
  the locals, \<open>getDelims\<close> is called with the engine object, which as a property key is
  its string conversion.  The record that
  \<open>applyLayout\<close> marks is the working copy; it shares its \<open>options\<close> object with the
  record it was copied from, a sharing that is not followed here.
\<close>

definition preprocess ::
  "externals \<Rightarrow> template_state \<Rightarrow> jsval \<Rightarrow> jsval \<Rightarrow> (js_error + preprocessed) \<times> template_state" where
  "preprocess env st template0 locals0 =
     (let locals1 = (if typeof locals0 = ''function'' then JObj [] else locals0);
          locals2 = (if truthy locals1 then locals1 else JObj []);
          engine0 = get_prop locals2 ''engine'';
          delims0 = get_prop locals2 ''delims'';
          tmpl =
            (if truthy (option st ''cache'') then
               (case pickCached template0 st None of
                  Inl e \<Rightarrow> Inl e
                | Inr t \<Rightarrow> if \<not> truthy t then pickPartial template0 st else Inr t)
             else Inr Undefined)
      in case tmpl of
           Inl e \<Rightarrow> (Inl e, st)
         | Inr t \<Rightarrow>
        (case (if truthy t then (extendLocals ''render'' t locals2, st)
               else format env st (generateId env Undefined) template0 locals2) of
           (Inl e, st1) \<Rightarrow> (Inl e, st1)
         | (Inr template1, st1) \<Rightarrow>
        (case (if isObject template1 then
                 (case mergeFn env st1 template1 locals2 of
                    (Inl e, st2) \<Rightarrow> (Inl e, st2)
                  | (Inr locals3, st2) \<Rightarrow>
                      (case (if truthy delims0 then Inr delims0 else pickDelims template1 locals3) of
                         Inl e \<Rightarrow> (Inl e, st2)
                       | Inr delims1 \<Rightarrow> (Inr (locals3, delims1), st2)))
               else (Inr (locals2, delims0), st1)) of
           (Inl e, st2) \<Rightarrow> (Inl e, st2)
         | (Inr (locals3, delims1), st2) \<Rightarrow>
        (case pickExt template1 locals3 (Some st2) of
           Inl e \<Rightarrow> (Inl e, st2)
         | Inr ext \<Rightarrow>
        (case applyLayout env st2 ext template1 locals3 of
           (Inl e, template2) \<Rightarrow> (Inl e, st2)
         | (Inr content1, template2) \<Rightarrow>
        (case (if truthy delims1 then addDelims env st2 ext delims1 else (Inr (), st2)) of
           (Inl e, st3) \<Rightarrow> (Inl e, st3)
         | (Inr u, st3) \<Rightarrow>
        (case (if isString engine0
               then getEngine env st3
                      (if index0 engine0 \<noteq> JStr ''.'' then JStr (''.'' @ to_str engine0) else engine0)
               else getEngine env st3 ext) of
           (Inl e, st4) \<Rightarrow> (Inl e, st4)
         | (Inr engine1, st4) \<Rightarrow>
        (case mergePartials env st4 locals3 Undefined Undefined of
           (Inl e, st5) \<Rightarrow> (Inl e, st5)
         | (Inr partials, st5) \<Rightarrow>
             (let delims2 = (if isString engine0
                             then getDelims st4 (JStr (object_to_str (heap st4) engine1))
                             else getDelims st4 ext);
                  locals4 = extend (JObj []) [locals3, partials, delims2]
              in (Inr \<lparr>pre_content = (if isObject content1 then get_prop content1 ''content'' else content1),
                        pre_engine = engine1, pre_locals = locals4\<rparr>, st5))))))))))"

text \<open>
  \<open>Template.prototype.render\<close> (index.js:1162).  The outcome is what the caller sees:
  an exception out of \<open>render\<close>, or the arguments its callback is called with.  Only
  \<open>engine.render\<close> stands inside the \<open>try\<close>; its callback drops \<open>err\<close> and hands \<open>res\<close> to
  \<open>this._.helpers.resolve\<close>.  A callback the engine calls is taken to run before
  \<open>engine.render\<close> returns, and the caller's callback is taken to return.
\<close>

datatype render_outcome = Threw js_error | Called_back jsval jsval | Not_called

definition render ::
  "externals \<Rightarrow> template_state \<Rightarrow> jsval \<Rightarrow> jsval \<Rightarrow> render_outcome \<times> template_state" where
  "render env st content locals0 =
     (let locals = (if typeof locals0 = ''function'' then JObj [] else locals0)
      in case getEngine env st (option st ''viewEngine'') of
           (Inl e, st1) \<Rightarrow> (Threw e, st1)
         | (Inr engine0, st1) \<Rightarrow>
             (case (if truthy (option st1 ''preprocess'') then preprocess env st1 content locals
                    else (Inr \<lparr>pre_content = content, pre_engine = engine0, pre_locals = locals\<rparr>, st1)) of
                (Inl e, st2) \<Rightarrow> (Threw e, st2)
              | (Inr pre, st2) \<Rightarrow>
                  (if \<not> callable (heap st2) (read_prop (heap st2) (pre_engine pre) ''render'')
                   then (Called_back (JErr (TypeError ''undefined is not a function'')) Undefined, st2)
                   else
                     (case engine_render env (heap st2) (pre_engine pre) (pre_content pre) (pre_locals pre) of
                        Throws err \<Rightarrow> (Called_back (JErr err) Undefined, st2)
                      | Calls_back err res \<Rightarrow>
                          (case helpers_resolve env res of
                             Throws err1 \<Rightarrow> (Called_back (JErr err1) Undefined, st2)
                           | Calls_back err1 res1 \<Rightarrow> (Called_back err1 res1, st2)
                           | No_call \<Rightarrow> (Not_called, st2))
                      | No_call \<Rightarrow> (Not_called, st2)))))"

text \<open>
  \<open>Template.prototype.renderSync\<close> (index.js:1197).  \<open>Inl\<close> is an exception out of
  \<open>renderSync\<close>.  The test before the \<open>try\<close> is \<open>hasOwn(engine, 'renderSync')\<close>: it asks
  for an own property of that name, whatever its value.  The call
  \<open>engine.renderSync(content, locals)\<close> stands inside the \<open>try\<close>: when the property holds
  no function the call throws a TypeError there, and an error thrown there is the
  returned value \<open>JErr\<close>.
\<close>

definition renderSync ::
  "externals \<Rightarrow> template_state \<Rightarrow> jsval \<Rightarrow> jsval \<Rightarrow> (js_error + jsval) \<times> template_state" where
  "renderSync env st content locals =
     (case getEngine env st (option st ''viewEngine'') of
        (Inl e, st1) \<Rightarrow> (Inl e, st1)
      | (Inr engine0, st1) \<Rightarrow>
          (case (if truthy (option st1 ''preprocess'') then preprocess env st1 content locals
                 else (Inr \<lparr>pre_content = content, pre_engine = engine0, pre_locals = locals\<rparr>, st1)) of
             (Inl e, st2) \<Rightarrow> (Inl e, st2)
           | (Inr pre, st2) \<Rightarrow>
               (if \<not> has_own (heap st2) (pre_engine pre) ''renderSync''
                then (Inl (Error (''`.renderSync()` method not found on engine: '' @ dq
                                   @ object_to_str (heap st2) (pre_engine pre) @ dq @ ''.'')), st2)
                else if \<not> callable (heap st2) (read_prop (heap st2) (pre_engine pre) ''renderSync'')
                then (Inr (JErr (TypeError ''undefined is not a function'')), st2)
                else
                  (case engine_renderSync env (heap st2) (pre_engine pre) (pre_content pre) (pre_locals pre) of
                     Inl err \<Rightarrow> (Inr (JErr err), st2)
                   | Inr res \<Rightarrow> (Inr res, st2)))))"

text \<open>
  The helper that \<open>defaultHelpers\<close> registers (index.js:216-220): it reads the record
  under \<open>key\<close>, copies it with the helper's locals and renders the copy synchronously.
\<close>

definition defaultHelper_call ::
  "externals \<Rightarrow> template_state \<Rightarrow> string \<Rightarrow> jsval \<Rightarrow> jsval \<Rightarrow> (js_error + jsval) \<times> template_state" where
  "defaultHelper_call env st plural key locals =
     (let coll = get_prop (JObj (cache st)) plural
      in if coll = Undefined \<or> coll = Null
         then (Inl (TypeError ''Cannot read property of undefined''), st)
         else
           (case extendLocals ''partial'' (get_prop coll (to_str key)) locals of
              Inl e \<Rightarrow> (Inl e, st)
            | Inr partial1 \<Rightarrow> renderSync env st partial1 Undefined))"

text \<open>
  The helper that \<open>defaultAsyncHelpers\<close> would register (index.js:233-268).  It tests
  the record it found: for a key the collection does not hold it writes a line to the
  console (the colour codes of the chalk package are left out) and calls back with the
  empty string.  The outcome is the call of \<open>next\<close>.
\<close>

definition defaultAsyncHelper_call ::
  "externals \<Rightarrow> template_state \<Rightarrow> string \<Rightarrow> string \<Rightarrow> jsval \<Rightarrow> jsval
     \<Rightarrow> render_outcome \<times> template_state" where
  "defaultAsyncHelper_call env st type plural name locals0 =
     (let locals = (if typeof locals0 = ''function'' then JObj [] else locals0);
          coll = get_prop (JObj (cache st)) plural
      in if coll = Undefined \<or> coll = Null
         then (Threw (TypeError ''Cannot read property of undefined''), st)
         else
           (let partial0 = get_prop coll (to_str name)
            in if \<not> truthy partial0 then
                 (Called_back Null (JStr []),
                  st\<lparr>console := console st
                       @ [''helper {{'' @ type @ '' '' @ dq @ to_str name @ dq @ ''}} not found.'']\<rparr>)
               else if \<not> isObject partial0 then
                 (Threw (TypeError ''Cannot assign to property locals''), st)
               else
                 (let partial1 =
                        set_prop ''locals'' (extend (JObj []) [get_prop partial0 ''locals'', locals]) partial0;
                      st1 = st\<lparr>cache := AList.update plural (set_prop (to_str name) partial1 coll) (cache st)\<rparr>
                  in case render env st1 partial1 (JObj []) of
                       (Called_back err content0, st2) \<Rightarrow>
                         (if truthy err then (Called_back err Undefined, st2)
                          else (Called_back Null content0, st2))
                     | (outcome, st2) \<Rightarrow> (outcome, st2))))"

section \<open>A concrete instance\<close>

text \<open>
  The instance that \<open>new Template()\<close> builds (index.js:64-206), for evaluating the
  functions above on concrete input.  \<open>defaultOptions\<close> lists the options of
  index.js:116-147 whose values are booleans, strings, \<open>null\<close> or functions.

  The store holds the registry as \<open>defaultEngines\<close> (index.js:172) leaves it.  The
  registry keeps the engine object it is given: the default extensions \<open>.md\<close>, \<open>.html\<close>
  and \<open>.hbs\<close> name one object, the lodash engine at address 3 with its options at
  address 4, and \<open>.*\<close> names the pass-through engine at address 5 with its options at
  address 6.  Each engine is registered with \<open>thisArg: this\<close> (index.js:685); address 0
  stands for \<open>this\<close>, the registry is at address 2, and the addresses from 7 on hold the
  functions of the engines.
\<close>

definition defaultOptions :: "(string \<times> jsval) list" where
  "defaultOptions =
     [(''cache'', JBool True), (''strictErrors'', JBool True), (''pretty'', JBool False),
      (''ext'', JStr ''*''), (''destExt'', JStr ''.html''), (''delims'', JObj []),
      (''viewEngine'', JStr ''.*''), (''engineDelims'', Null), (''layoutTag'', JStr ''body''),
      (''layout'', Null), (''preprocess'', JBool True), (''preferLocals'', JBool False),
      (''partialLayout'', Null), (''mergePartials'', JBool True), (''mergeFunction'', JFun ''extend''),
      (''bindHelpers'', JBool True), (''defaultParsers'', JBool True), (''defaultEngines'', JBool True),
      (''defaultHelpers'', JBool True), (''renameKey'', JFun ''renameKey'')]"

definition plain_object :: "(string \<times> engine_val) list \<Rightarrow> engine_object" where
  "plain_object kvs = \<lparr>source = None, props = kvs\<rparr>"

definition function_object :: "string \<Rightarrow> engine_object" where
  "function_object src = \<lparr>source = Some src, props = []\<rparr>"

definition engine_options :: engine_object where
  "engine_options =
     plain_object [(''thisArg'', ERef 0), (''bindFunctions'', EBool True), (''destExt'', EStr ''.html'')]"

definition default_heap :: store where
  "default_heap =
     (\<lambda>a. plain_object [])
       (2 := plain_object [(''.md'', ERef 3), (''.html'', ERef 3), (''.hbs'', ERef 3), (''.*'', ERef 5)],
        3 := plain_object [(''render'', ERef 7), (''renderSync'', ERef 8), (''options'', ERef 4)],
        4 := engine_options,
        5 := plain_object [(''render'', ERef 9), (''renderSync'', ERef 10), (''options'', ERef 6)],
        6 := engine_options,
        7 := function_object ''render'',
        8 := function_object ''renderSync'',
        9 := function_object ''render'',
        10 := function_object ''renderSync'')"

text \<open>
  A Layouts instance (index.js:288) is an object of the layouts package; only its truth
  value is read here.  \<open>lazyLayouts\<close> stores one for the delimiters \<open>*\<close> and for every
  registered engine.
\<close>

definition layouts_instance :: jsval where
  "layouts_instance = JObj [(''tag'', JStr ''body'')]"

text \<open>
  \<open>fresh_state\<close> is the instance without the template types; \<open>create\<close> neither reads nor
  writes the engine registry.
\<close>

definition fresh_state :: template_state where
  "fresh_state =
     \<lparr>options = defaultOptions,
      cache = [(''data'', JObj []), (''mixins'', JObj []), (''locals'', JObj []), (''imports'', JObj []),
               (''layouts'', JObj []), (''partials'', JObj []), (''anonymous'', JObj []),
               (''pages'', JObj [])],
      engines = 2,
      heap = default_heap,
      helpers = [],
      layoutSettings = [(''*'', layouts_instance), (''.md'', layouts_instance), (''.html'', layouts_instance),
                        (''.hbs'', layouts_instance), (''.*'', layouts_instance)],
      delims = [(''*'', JObj [(''open'', JStr ''<%''), (''close'', JStr ''%>'')])],
      currentDelims = Undefined,
      templateType = \<lparr>partial = [], renderable = [], layout = []\<rparr>,
      viewType = None,
      methods = [],
      console = []\<rparr>"

text \<open>\<open>Template.prototype.defaultTemplates\<close> (index.js:202).\<close>

definition defaultTemplates :: "template_state \<Rightarrow> (js_error + unit) \<times> template_state" where
  "defaultTemplates st =
     (case create st (JStr ''page'') (JStr ''pages'') (JObj [(''isRenderable'', JBool True)]) of
        (Inl e, st1) \<Rightarrow> (Inl e, st1)
      | (Inr u, st1) \<Rightarrow>
          (case create st1 (JStr ''layout'') (JStr ''layouts'') (JObj [(''isLayout'', JBool True)]) of
             (Inl e, st2) \<Rightarrow> (Inl e, st2)
           | (Inr u, st2) \<Rightarrow> create st2 (JStr ''partial'') (JStr ''partials'') Undefined))"

text \<open>The instance after \<open>defaultTemplates\<close>: the three default types and their helpers.\<close>

definition initial_state :: template_state where
  "initial_state =
     fresh_state
       \<lparr>helpers := [(''page'', DefaultHelper ''page'' ''pages''),
                    (''layout'', DefaultHelper ''layout'' ''layouts''),
                    (''partial'', DefaultHelper ''partial'' ''partials'')],
        templateType := \<lparr>partial = [''partials''], renderable = [''pages''], layout = [''layouts'']\<rparr>,
        methods := [''page'', ''pages'', ''getPage'', ''layout'', ''layouts'', ''getLayout'',
                    ''partial'', ''partials'', ''getPartial'']\<rparr>"

text \<open>
  Records with a layout named at each of the four places \<open>utils.pickLayout\<close> looks
  at (a lower place names another layout), and the first of them as a first
  application of \<open>applyLayout\<close> leaves it.
\<close>

definition page_own_layout :: jsval where
  "page_own_layout =
     JObj [(''content'', JStr ''X''), (''layout'', JStr ''default.md''),
           (''data'', JObj [(''layout'', JStr ''other.md'')]), (''options'', JObj [])]"

definition page_data_layout :: jsval where
  "page_data_layout =
     JObj [(''content'', JStr ''X''), (''data'', JObj [(''layout'', JStr ''default.md'')]),
           (''locals'', JObj [(''layout'', JStr ''other.md'')]), (''options'', JObj [])]"

definition page_locals_layout :: jsval where
  "page_locals_layout =
     JObj [(''content'', JStr ''X''), (''locals'', JObj [(''layout'', JStr ''default.md'')]),
           (''options'', JObj [(''layout'', JStr ''other.md'')])]"

definition page_options_layout :: jsval where
  "page_options_layout =
     JObj [(''content'', JStr ''X''), (''options'', JObj [(''layout'', JStr ''default.md'')])]"

definition page_marked :: jsval where
  "page_marked =
     JObj [(''content'', JStr ''X''), (''layout'', JStr ''default.md''),
           (''data'', JObj [(''layout'', JStr ''other.md'')]),
           (''options'', JObj [(''hasLayout'', JBool True)])]"

text \<open>
  The instance with the partial \<open>a.md\<close> of test/template.partial.js registered: front
  matter \<open>name: AAA\<close>, locals \<open>name: BBB\<close>.
\<close>

definition partial_state :: template_state where
  "partial_state =
     initial_state
       \<lparr>cache := AList.update ''partials''
          (JObj [(''a.md'',
                  JObj [(''path'', JStr ''a.md''), (''content'', JStr ''This is content.''),
                        (''data'', JObj [(''name'', JStr ''AAA'')]),
                        (''locals'', JObj [(''name'', JStr ''BBB'')]), (''options'', JObj [])])])
          (cache initial_state)\<rparr>"

text \<open>
  The instance with no engine registered, and the instance with preprocessing switched
  off (\<open>template.option('preprocess', false)\<close>).
\<close>

definition no_engines_state :: template_state where
  "no_engines_state = initial_state\<lparr>heap := (heap initial_state)(2 := plain_object [])\<rparr>"

definition no_preprocess_state :: template_state where
  "no_preprocess_state =
     initial_state\<lparr>options := AList.update ''preprocess'' (JBool False) (options initial_state)\<rparr>"

text \<open>
  The instance with preprocessing off and, as the view engine, an engine under \<open>.jade\<close>
  that offers \<open>render\<close> alone.  The registry keeps such an engine with an own property
  \<open>renderSync\<close> whose value is \<open>undefined\<close>.  The engine is at address 11, its options
  at address 12 and its \<open>render\<close> at address 13.
\<close>

definition jade_state :: template_state where
  "jade_state =
     no_preprocess_state
       \<lparr>options := AList.update ''viewEngine'' (JStr ''.jade'') (options no_preprocess_state),
        heap := (write_prop default_heap 2 ''.jade'' (ERef 11))
                  (11 := plain_object [(''render'', ERef 13), (''renderSync'', EUndefined),
                                       (''options'', ERef 12)],
                   12 := engine_options,
                   13 := function_object ''render'')\<rparr>"


text \<open>
  Stand-ins for the packages.  The engine registry answers the object registered under
  the extension, with a dot put before it, and the object under \<open>.*\<close> when there is
  none; asked with no extension it answers the registry itself.  The engines pass the
  content through; in \<open>failing_engines\<close> they throw.  The layout engine returns the
  content as it is.  \<open>format\<close> throws: its normalization (index.js:985) calls
  \<open>utils.isLayout\<close>.
\<close>

definition example_engines_get :: "store \<Rightarrow> ref \<Rightarrow> jsval \<Rightarrow> ref option" where
  "example_engines_get h registry ext =
     (if \<not> truthy ext then Some registry
      else
        (case read_prop h registry (to_str (formatExt ext)) of
           ERef engine \<Rightarrow> Some engine
         | _ \<Rightarrow> (case read_prop h registry ''.*'' of ERef engine \<Rightarrow> Some engine | _ \<Rightarrow> None)))"

definition as_shipped :: externals where
  "as_shipped =
     \<lparr>uniqueId = (\<lambda>opts. JStr ''__id__0''),
      layout_render = (\<lambda>l c n opts. Inr (JObj [(''content'', c)])),
      engines_get = example_engines_get,
      engine_render = (\<lambda>h g c l. Calls_back Null c),
      engine_renderSync = (\<lambda>h g c l. Inr c),
      helpers_resolve = (\<lambda>r. Calls_back Null r),
      mergeFn_option = (\<lambda>f st t l. (Inr l, st)),
      format = (\<lambda>st k t l. (Inl missing_util, st)),
      addDelims = (\<lambda>st e d. (Inr (), st))\<rparr>"

definition failing_engines :: externals where
  "failing_engines =
     as_shipped\<lparr>engine_render := (\<lambda>h g c l. Throws (Error ''render failed'')),
                engine_renderSync := (\<lambda>h g c l. Inl (Error ''render failed''))\<rparr>"

section \<open>Results\<close>

subsection \<open>Reading merged and updated objects\<close>

lemma get_prop_empty: "get_prop (JObj []) k = Undefined"
  by simp

lemma get_prop_own_props: "get_prop (JObj (own_props v)) k = get_prop v k"
  by (cases v) simp_all

lemma hasOwn_own_props: "hasOwn (JObj (own_props v)) k = hasOwn v k"
  by (cases v) simp_all

lemma get_prop_defined_hasOwn: "get_prop v k \<noteq> Undefined \<Longrightarrow> hasOwn v k"
  by (cases v) (auto split: option.splits)

lemma get_prop_merge:
  "get_prop (JObj (AList.merge d s)) k = (if hasOwn (JObj s) k then get_prop (JObj s) k else get_prop (JObj d) k)"
  by (auto simp: merge_conv' map_add_def split: option.splits)

lemma get_prop_update:
  "get_prop (JObj (AList.update k v kvs)) k' = (if k' = k then v else get_prop (JObj kvs) k')"
  by (simp add: update_conv')

lemma get_prop_defaults_fold:
  "get_prop (JObj (foldr (\<lambda>k acc. if get_prop (JObj acc) k = Undefined then AList.update k (get_prop (JObj s) k) acc else acc) ks d)) k =
     (if get_prop (JObj d) k \<noteq> Undefined then get_prop (JObj d) k
      else if k \<in> set ks then get_prop (JObj s) k else Undefined)"
proof (induction ks)
  case Nil
  then show ?case by simp
next
  case (Cons a ks)
  then show ?case by (simp only: foldr.simps o_apply get_prop_update split: if_splits) auto
qed

lemma get_prop_defaults1:
  "get_prop (JObj (defaults1 d s)) k =
     (if get_prop (JObj d) k \<noteq> Undefined then get_prop (JObj d) k else get_prop (JObj s) k)"
proof -
  have "k \<notin> set (map fst s) \<Longrightarrow> get_prop (JObj s) k = Undefined"
    by (simp add: map_of_eq_None_iff[THEN iffD2])
  then show ?thesis
    unfolding defaults1_def get_prop_defaults_fold by auto
qed

lemma get_prop_set_prop_other:
  "k' \<noteq> k \<Longrightarrow> get_prop (set_prop k v w) k' = get_prop w k'"
  by (cases w) (simp_all add: update_conv')

lemma get_prop_set_prop_same:
  "isObject w \<Longrightarrow> get_prop (set_prop k v w) k = v"
  by (cases w) (simp_all add: update_conv' isObject_def)

lemma isObject_set_prop: "isObject (set_prop k v w) = isObject w"
  by (cases w) (simp_all add: isObject_def)

lemma hasOwn_sub_parent: "hasOwn (get_prop t p) k \<Longrightarrow> hasOwn t p"
  by (cases t) (auto split: option.splits)

lemma extend_two:
  "extend (JObj d) [a, b] = JObj (AList.merge (AList.merge d (own_props a)) (own_props b))"
  by (simp add: extend_def)

lemma defaults_three:
  "defaults (JObj d) [a, b, c] = JObj (defaults1 (defaults1 (defaults1 d (own_props a)) (own_props b)) (own_props c))"
  by (simp add: defaults_def)

lemma defaults1_Nil [simp]: "defaults1 [] [] = []"
  by (simp add: defaults1_def)

lemma pickContent_object:
  "isObject t \<Longrightarrow> get_prop (pickContent t) ''content'' = get_prop t ''content''"
  by (cases t) (auto simp: pickContent_def basePick_def pick1_def isObject_def isString_def split: option.splits)

subsection \<open>The concrete instance\<close>

lemma initial_lookups:
  "option initial_state ''viewEngine'' = JStr ''.*''"
  "option initial_state ''preprocess'' = JBool True"
  "option initial_state ''cache'' = JBool True"
  "option no_engines_state ''viewEngine'' = JStr ''.*''"
  "option no_preprocess_state ''viewEngine'' = JStr ''.*''"
  "option no_preprocess_state ''preprocess'' = JBool False"
  "option jade_state ''viewEngine'' = JStr ''.jade''"
  "option jade_state ''preprocess'' = JBool False"
  by (simp_all add: option_def initial_state_def fresh_state_def defaultOptions_def no_engines_state_def
        no_preprocess_state_def jade_state_def)

lemma initial_heaps:
  "heap initial_state = default_heap" "engines initial_state = 2"
  "heap no_preprocess_state = default_heap" "engines no_preprocess_state = 2"
  "heap no_engines_state = default_heap(2 := plain_object [])" "engines no_engines_state = 2"
  "engines jade_state = 2"
  by (simp_all add: initial_state_def fresh_state_def no_preprocess_state_def no_engines_state_def
        jade_state_def)

lemma initial_engine_found:
  "engines_get as_shipped default_heap 2 (JStr ''.*'') = Some 5"
  "engines_get failing_engines default_heap 2 (JStr ''.*'') = Some 5"
  "engines_get as_shipped default_heap 2 (JStr ''.md'') = Some 3"
  "engines_get as_shipped (heap jade_state) 2 (JStr ''.jade'') = Some 11"
  "engines_get as_shipped (default_heap(2 := plain_object [])) 2 (JStr ''.*'') = None"
  by (simp_all add: as_shipped_def failing_engines_def example_engines_get_def formatExt_def read_prop_def
        write_prop_def plain_object_def default_heap_def jade_state_def)

lemma initial_engine_options:
  "read_prop default_heap 5 ''options'' = ERef 6"
  "read_prop default_heap 3 ''options'' = ERef 4"
  "read_prop (heap jade_state) 11 ''options'' = ERef 12"
  by (simp_all add: read_prop_def write_prop_def plain_object_def default_heap_def jade_state_def)

lemma example_pages_wf:
  "isObject page_own_layout" "isObject (get_prop page_own_layout ''options'')"
  "isObject page_data_layout" "isObject (get_prop page_data_layout ''options'')"
  "isObject page_locals_layout" "isObject (get_prop page_locals_layout ''options'')"
  "isObject page_options_layout" "isObject (get_prop page_options_layout ''options'')"
  "isObject page_marked" "isObject (get_prop page_marked ''options'')"
  by (simp_all add: page_own_layout_def page_data_layout_def page_locals_layout_def
        page_options_layout_def page_marked_def isObject_def)

text \<open>\<open>initial_state\<close> is what \<open>defaultTemplates\<close> makes of \<open>fresh_state\<close>.\<close>

lemma create_page:
  "create fresh_state (JStr ''page'') (JStr ''pages'') (JObj [(''isRenderable'', JBool True)]) =
     (Inr (), fresh_state\<lparr>
        helpers := [(''page'', DefaultHelper ''page'' ''pages'')],
        templateType := \<lparr>partial = [], renderable = [''pages''], layout = []\<rparr>,
        methods := [''page'', ''pages'', ''getPage'']\<rparr>)"
  by (simp add: create_def trackType_def defaultHelpers_def helpers_object_def toUpperCase_def extend_def
        fresh_state_def Let_def AList.merge_def)

lemma create_layout:
  "create (fresh_state\<lparr>
        helpers := [(''page'', DefaultHelper ''page'' ''pages'')],
        templateType := \<lparr>partial = [], renderable = [''pages''], layout = []\<rparr>,
        methods := [''page'', ''pages'', ''getPage'']\<rparr>)
      (JStr ''layout'') (JStr ''layouts'') (JObj [(''isLayout'', JBool True)]) =
     (Inr (), fresh_state\<lparr>
        helpers := [(''page'', DefaultHelper ''page'' ''pages''), (''layout'', DefaultHelper ''layout'' ''layouts'')],
        templateType := \<lparr>partial = [], renderable = [''pages''], layout = [''layouts'']\<rparr>,
        methods := [''page'', ''pages'', ''getPage'', ''layout'', ''layouts'', ''getLayout'']\<rparr>)"
  by (simp add: create_def trackType_def defaultHelpers_def helpers_object_def toUpperCase_def extend_def
        fresh_state_def Let_def AList.merge_def)

lemma create_partial:
  "create (fresh_state\<lparr>
        helpers := [(''page'', DefaultHelper ''page'' ''pages''), (''layout'', DefaultHelper ''layout'' ''layouts'')],
        templateType := \<lparr>partial = [], renderable = [''pages''], layout = [''layouts'']\<rparr>,
        methods := [''page'', ''pages'', ''getPage'', ''layout'', ''layouts'', ''getLayout'']\<rparr>)
      (JStr ''partial'') (JStr ''partials'') Undefined =
     (Inr (), initial_state)"
  by (simp add: create_def trackType_def defaultHelpers_def helpers_object_def toUpperCase_def extend_def
        fresh_state_def initial_state_def Let_def AList.merge_def)

lemma defaultTemplates_fresh: "defaultTemplates fresh_state = (Inr (), initial_state)"
  by (simp only: defaultTemplates_def create_page create_layout create_partial prod.case sum.case)

subsection \<open>Extension resolution\<close>

text \<open>
  C1.  The claim puts the option given at the render call first and the extension of
  \<open>record.path\<close> third.  \<open>utils.pickExt\<close> reads the record first (\<open>engine\<close>, \<open>ext\<close>,
  \<open>options.engine\<close>, \<open>options.ext\<close>), the call's options after it, and never reads
  \<open>path\<close>: for the record with \<open>options.ext = 'hbs'\<close> and path \<open>a.md\<close>, called with
  \<open>ext: 'jade'\<close>, it answers \<open>hbs\<close>, whatever the configured view engine is.  The
  function's own comment lists \<open>options.ext\<close> first and the path's extension last.
\<close>

theorem pickExt_record_before_call_site:
  "pickExt
     (JObj [(''path'', JStr ''a.md''), (''content'', JStr ''x''),
            (''options'', JObj [(''ext'', JStr ''hbs'')])])
     (JObj [(''ext'', JStr ''jade'')])
     (Some st)
   = Inr (JStr ''hbs'')"
  by (simp add: pickExt_def extend_def isObject_def AList.merge_def)

subsection \<open>The render context\<close>

text \<open>
  C2, as amended.  With \<open>preferLocals\<close> not \<open>true\<close> and no \<open>mergeFn\<close> option, for a record
  whose \<open>data\<close> and \<open>locals\<close> both define a key other than \<open>helpers\<close>, \<open>data\<close> giving it
  a value that is not \<open>undefined\<close>, the context that \<open>mergeFn\<close> returns holds the value
  of \<open>data\<close>, provided the locals of the render call do not define the key (they are
  merged last) and \<open>this.cache.data\<close> is an object.  A function in the place of the
  call's locals is excluded: lodash would take it for a customizer, and \<open>preprocess\<close>
  replaces it by \<open>{}\<close> before it calls \<open>mergeFn\<close>.
\<close>

theorem mergeFn_data_over_locals:
  assumes nofn: "\<not> truthy (option st ''mergeFn'')"
    and pref: "option st ''preferLocals'' \<noteq> JBool True"
    and glob: "isObject (get_prop (JObj (cache st)) ''data'')"
    and rec: "isObject template0"
    and d: "hasOwn (get_prop template0 ''data'') k"
    and l: "hasOwn (get_prop template0 ''locals'') k"
    and dv: "get_prop (get_prop template0 ''data'') k \<noteq> Undefined"
    and k: "k \<noteq> ''helpers''"
    and call: "\<not> hasOwn locals k"
    and nocb: "typeof locals \<noteq> ''function''"
  shows "\<exists>ctx. fst (mergeFn env st template0 locals) = Inr ctx
           \<and> get_prop ctx k = get_prop (get_prop template0 ''data'') k"
proof -
  obtain g where g: "get_prop (JObj (cache st)) ''data'' = JObj g"
    using glob by (cases "get_prop (JObj (cache st)) ''data''") (simp_all add: isObject_def)
  let ?o1 = "defaults (JObj []) [JObj [], get_prop template0 ''data'', get_prop template0 ''locals'']"
  have o1: "get_prop ?o1 k = get_prop (get_prop template0 ''data'') k"
    using dv by (simp add: defaults_three get_prop_defaults1 get_prop_own_props get_prop_empty del: get_prop.simps)
  obtain o1s where o1s: "?o1 = JObj o1s"
    by (simp add: defaults_three)
  let ?o2 = "set_prop ''helpers'' (extend (JObj []) [helpers_object st, get_prop ?o1 ''helpers'']) ?o1"
  have o2: "get_prop ?o2 k = get_prop (get_prop template0 ''data'') k"
    using k o1 by (simp add: get_prop_set_prop_other del: get_prop.simps)
  then have ho2: "hasOwn ?o2 k"
    using dv get_prop_defined_hasOwn by metis
  have "get_prop (extend (JObj g) [?o2, locals]) k = get_prop (get_prop template0 ''data'') k"
    using call ho2 o2
    by (simp only: extend_two get_prop_merge hasOwn_own_props get_prop_own_props if_True if_False)
  moreover have "fst (mergeFn env st template0 locals) = Inr (extend (JObj g) [?o2, locals])"
    using nofn pref rec g by (simp add: mergeFn_def Let_def)
  ultimately show ?thesis by blast
qed

text \<open>
  C2, witness: \<open>record.locals = {name: 'BBB'}\<close>, \<open>record.data = {name: 'AAA'}\<close>, rendered
  with empty locals on the default instance, gives \<open>name = 'AAA'\<close>.
\<close>

theorem mergeFn_data_over_locals_witness:
  "\<exists>ctx. fst (mergeFn as_shipped initial_state
       (JObj [(''locals'', JObj [(''name'', JStr ''BBB'')]), (''data'', JObj [(''name'', JStr ''AAA'')])])
       (JObj [])) = Inr ctx \<and> get_prop ctx ''name'' = JStr ''AAA''"
proof -
  let ?t = "JObj [(''locals'', JObj [(''name'', JStr ''BBB'')]), (''data'', JObj [(''name'', JStr ''AAA'')])]"
  have h1: "\<not> truthy (option initial_state ''mergeFn'')"
    and h2: "option initial_state ''preferLocals'' \<noteq> JBool True"
    and h3: "isObject (get_prop (JObj (cache initial_state)) ''data'')"
    by (simp_all add: option_def initial_state_def fresh_state_def defaultOptions_def isObject_def)
  have h4: "isObject ?t"
    and h5: "hasOwn (get_prop ?t ''data'') ''name''"
    and h6: "hasOwn (get_prop ?t ''locals'') ''name''"
    and h7: "get_prop (get_prop ?t ''data'') ''name'' \<noteq> Undefined"
    and h8: "''name'' \<noteq> ''helpers''"
    and h9: "\<not> hasOwn (JObj []) ''name''"
    and h10: "typeof (JObj []) \<noteq> ''function''"
    by (simp_all add: isObject_def)
  show ?thesis
    using mergeFn_data_over_locals [OF h1 h2 h3 h4 h5 h6 h7 h8 h9 h10, of as_shipped] by simp
qed

text \<open>
  C2, counterexample to the claim as stated (every such record takes the value of its
  front matter): the same record rendered with \<open>{name: 'CCC'}\<close> gives \<open>CCC\<close>, and with
  the option \<open>preferLocals\<close> set it gives \<open>BBB\<close>.  When the record is a registered
  partial, \<open>mergePartials\<close> answers \<open>BBB\<close> for it, and \<open>preprocess\<close> merges that answer
  over the context of \<open>mergeFn\<close>.
\<close>

theorem mergeFn_front_matter_counterexample:
  "fst (mergeFn as_shipped initial_state
         (JObj [(''locals'', JObj [(''name'', JStr ''BBB'')]), (''data'', JObj [(''name'', JStr ''AAA'')])])
         (JObj [(''name'', JStr ''CCC'')]))
     = Inr (JObj [(''helpers'', JObj [(''partial'', JFun ''partial''), (''layout'', JFun ''layout''),
                                      (''page'', JFun ''page'')]),
                  (''name'', JStr ''CCC'')])
   \<and> fst (mergeFn as_shipped
           (initial_state\<lparr>options := AList.update ''preferLocals'' (JBool True) (options initial_state)\<rparr>)
           (JObj [(''locals'', JObj [(''name'', JStr ''BBB'')]), (''data'', JObj [(''name'', JStr ''AAA'')])])
           (JObj []))
     = Inr (JObj [(''helpers'', JObj [(''partial'', JFun ''partial''), (''layout'', JFun ''layout''),
                                      (''page'', JFun ''page'')]),
                  (''name'', JStr ''BBB'')])
   \<and> fst (mergePartials as_shipped partial_state (JObj [(''name'', JStr ''AAA'')]) Undefined Undefined)
     = Inr (JObj [(''partials'', JObj [(''a.md'', JStr ''This is content.'')]), (''name'', JStr ''BBB'')])"
proof -
  have a: "fst (mergeFn as_shipped initial_state
         (JObj [(''locals'', JObj [(''name'', JStr ''BBB'')]), (''data'', JObj [(''name'', JStr ''AAA'')])])
         (JObj [(''name'', JStr ''CCC'')]))
     = Inr (JObj [(''helpers'', JObj [(''partial'', JFun ''partial''), (''layout'', JFun ''layout''),
                                      (''page'', JFun ''page'')]),
                  (''name'', JStr ''CCC'')])"
    by (simp add: mergeFn_def option_def initial_state_def fresh_state_def defaultOptions_def isObject_def
          defaults_def defaults1_def extend_def helpers_object_def AList.merge_def Let_def)
  have b: "fst (mergeFn as_shipped
           (initial_state\<lparr>options := AList.update ''preferLocals'' (JBool True) (options initial_state)\<rparr>)
           (JObj [(''locals'', JObj [(''name'', JStr ''BBB'')]), (''data'', JObj [(''name'', JStr ''AAA'')])])
           (JObj []))
     = Inr (JObj [(''helpers'', JObj [(''partial'', JFun ''partial''), (''layout'', JFun ''layout''),
                                      (''page'', JFun ''page'')]),
                  (''name'', JStr ''BBB'')])"
    by (simp add: mergeFn_def option_def initial_state_def fresh_state_def defaultOptions_def isObject_def
          defaults_def defaults1_def extend_def helpers_object_def AList.merge_def Let_def)
  have c: "fst (mergePartials as_shipped partial_state (JObj [(''name'', JStr ''AAA'')]) Undefined Undefined)
     = Inr (JObj [(''partials'', JObj [(''a.md'', JStr ''This is content.'')]), (''name'', JStr ''BBB'')])"
    by (simp add: mergePartials_def partial_state_def initial_state_def fresh_state_def option_def
          defaultOptions_def extend_def AList.merge_def applyLayout_def pickContent_def basePick_def
          pick1_def isObject_def isString_def Let_def)
  show ?thesis using a b c by simp
qed

subsection \<open>Layouts\<close>

lemma applyLayout_marked:
  assumes "isObject t" "isObject (get_prop t ''options'')"
    "truthy (get_prop (get_prop t ''options'') ''hasLayout'')"
  shows "applyLayout env st ext t locals = (Inr (get_prop t ''content''), t)"
  using assms by (simp add: applyLayout_def Let_def pickContent_object del: get_prop.simps)

lemma applyLayout_no_engine:
  assumes "isObject t" "\<not> truthy (get_prop (JObj (layoutSettings st)) (to_str ext))"
  shows "applyLayout env st ext t locals = (Inr (get_prop t ''content''), t)"
  using assms by (simp add: applyLayout_def Let_def pickContent_object del: get_prop.simps)

lemma applyLayout_unmarked:
  assumes "isObject t" "isObject (get_prop t ''options'')"
    "truthy (get_prop (JObj (layoutSettings st)) (to_str ext))"
    "\<not> truthy (get_prop (get_prop t ''options'') ''hasLayout'')"
  shows "applyLayout env st ext t locals = (Inl (TypeError ''undefined is not a function''), setHasLayout t)"
  using assms
  by (simp add: applyLayout_def isPartial_def missing_util_def Let_def del: get_prop.simps)

lemma setHasLayout_marked:
  assumes "isObject t" "isObject (get_prop t ''options'')"
  shows "isObject (setHasLayout t)" "isObject (get_prop (setHasLayout t) ''options'')"
    "truthy (get_prop (get_prop (setHasLayout t) ''options'') ''hasLayout'')"
    "get_prop (setHasLayout t) ''content'' = get_prop t ''content''"
  using assms
  by (simp_all add: setHasLayout_def isObject_set_prop get_prop_set_prop_same get_prop_set_prop_other
        del: get_prop.simps)

lemma layout_engine_registered:
  "truthy (get_prop (JObj (layoutSettings initial_state)) (to_str (JStr ''.md'')))"
  "\<not> truthy (get_prop (JObj (layoutSettings initial_state)) (to_str (JStr ''.txt'')))"
  by (simp_all add: initial_state_def fresh_state_def layouts_instance_def)

lemma setHasLayout_page: "setHasLayout page_own_layout = page_marked"
  by (simp add: setHasLayout_def page_own_layout_def page_marked_def)

text \<open>
  C3.  The claim has the first application wrap the content and the second return the
  same output.  For a record that is not yet marked, with a layout engine registered
  for the extension, the first application marks the record and then throws the
  TypeError of the call \<open>utils.isPartial(template)\<close> (index.js:318): nothing is wrapped
  and nothing is returned.  The second application finds the record marked and returns
  the content as the record holds it.  The comment of \<open>applyLayout\<close> says it applies the
  layout if one is defined.
\<close>

theorem applyLayout_first_application_throws:
  assumes "isObject t" and "isObject (get_prop t ''options'')"
    and "truthy (get_prop (JObj (layoutSettings st)) (to_str ext))"
    and "\<not> truthy (get_prop (get_prop t ''options'') ''hasLayout'')"
  shows "applyLayout env st ext t locals
           = (Inl (TypeError ''undefined is not a function''), setHasLayout t)
       \<and> applyLayout env st ext (snd (applyLayout env st ext t locals)) locals2
           = (Inr (get_prop t ''content''), setHasLayout t)"
proof -
  have first: "applyLayout env st ext t locals
      = (Inl (TypeError ''undefined is not a function''), setHasLayout t)"
    using assms by (rule applyLayout_unmarked)
  have "applyLayout env st ext (setHasLayout t) locals2
      = (Inr (get_prop (setHasLayout t) ''content''), setHasLayout t)"
    using assms(1,2) by (intro applyLayout_marked setHasLayout_marked)
  then have "applyLayout env st ext (setHasLayout t) locals2 = (Inr (get_prop t ''content''), setHasLayout t)"
    using assms(1,2) by (simp add: setHasLayout_marked(4) del: get_prop.simps)
  then show ?thesis using first by simp
qed

text \<open>
  C3, witness: on the default instance, the page \<open>X\<close> with the layout \<open>default.md\<close> and
  the extension \<open>.md\<close>: the first application throws and leaves the record marked, the
  second returns \<open>X\<close>.
\<close>

theorem applyLayout_first_application_throws_witness:
  "applyLayout as_shipped initial_state (JStr ''.md'') page_own_layout Undefined
     = (Inl (TypeError ''undefined is not a function''), page_marked)
   \<and> applyLayout as_shipped initial_state (JStr ''.md'')
       (snd (applyLayout as_shipped initial_state (JStr ''.md'') page_own_layout Undefined)) Undefined
     = (Inr (JStr ''X''), page_marked)"
proof -
  have h: "\<not> truthy (get_prop (get_prop page_own_layout ''options'') ''hasLayout'')"
    "get_prop page_own_layout ''content'' = JStr ''X''"
    by (simp_all add: page_own_layout_def)
  note w = applyLayout_first_application_throws [OF example_pages_wf(1,2) layout_engine_registered(1) h(1),
      of as_shipped Undefined Undefined]
  have a: "applyLayout as_shipped initial_state (JStr ''.md'') page_own_layout Undefined
     = (Inl (TypeError ''undefined is not a function''), page_marked)"
    using w [THEN conjunct1] by (simp add: setHasLayout_page)
  have b: "applyLayout as_shipped initial_state (JStr ''.md'')
       (snd (applyLayout as_shipped initial_state (JStr ''.md'') page_own_layout Undefined)) Undefined
     = (Inr (JStr ''X''), page_marked)"
    using w [THEN conjunct2] h(2) by (simp add: setHasLayout_page)
  show ?thesis using a b by blast
qed

lemma pickLayout_own:
  "isObject t \<Longrightarrow> hasOwn t ''layout'' \<Longrightarrow> pickLayout t = get_prop t ''layout''"
  by (simp add: pickLayout_def pickFrom_def)

lemma pickLayout_data:
  "isObject t \<Longrightarrow> \<not> hasOwn t ''layout'' \<Longrightarrow> hasOwn (get_prop t ''data'') ''layout''
     \<Longrightarrow> pickLayout t = get_prop (get_prop t ''data'') ''layout''"
  by (simp add: pickLayout_def pickFrom_def hasOwn_sub_parent Let_def del: get_prop.simps hasOwn.simps)

lemma pickLayout_locals:
  "isObject t \<Longrightarrow> \<not> hasOwn t ''layout'' \<Longrightarrow> \<not> hasOwn (get_prop t ''data'') ''layout''
     \<Longrightarrow> hasOwn (get_prop t ''locals'') ''layout''
     \<Longrightarrow> pickLayout t = get_prop (get_prop t ''locals'') ''layout''"
  by (simp add: pickLayout_def pickFrom_def hasOwn_sub_parent Let_def del: get_prop.simps hasOwn.simps)

lemma pickLayout_options:
  "isObject t \<Longrightarrow> \<not> hasOwn t ''layout'' \<Longrightarrow> \<not> hasOwn (get_prop t ''data'') ''layout''
     \<Longrightarrow> \<not> hasOwn (get_prop t ''locals'') ''layout''
     \<Longrightarrow> hasOwn (get_prop t ''options'') ''layout''
     \<Longrightarrow> pickLayout t = get_prop (get_prop t ''options'') ''layout''"
  by (simp add: pickLayout_def pickFrom_def hasOwn_sub_parent Let_def del: get_prop.simps hasOwn.simps)

text \<open>
  C4.  The claim has \<open>applyLayout\<close> wrap the content with the layout that the
  precedence names.  \<open>utils.pickLayout\<close> does resolve a name by precedence: the
  record's own \<open>layout\<close>, else \<open>data.layout\<close>, else \<open>locals.layout\<close>, and after these
  the \<open>layout\<close> of the record's \<open>options\<close>.  But \<open>applyLayout\<close> does not get as far as
  calling it: for a record that is not yet marked, with a layout engine registered for
  the extension, it throws the TypeError of the call \<open>utils.isPartial(template)\<close>
  (index.js:318), whatever layout the record names; in every other case it returns the
  content as the record holds it.  No content is wrapped.  The comment of
  \<open>applyLayout\<close> and the tests of test/layout.js expect the layout to be applied.
\<close>

theorem applyLayout_layout_resolution:
  assumes "isObject t" and "isObject (get_prop t ''options'')"
  shows "(hasOwn t ''layout'' \<longrightarrow> pickLayout t = get_prop t ''layout'')
       \<and> (\<not> hasOwn t ''layout'' \<and> hasOwn (get_prop t ''data'') ''layout''
            \<longrightarrow> pickLayout t = get_prop (get_prop t ''data'') ''layout'')
       \<and> (\<not> hasOwn t ''layout'' \<and> \<not> hasOwn (get_prop t ''data'') ''layout''
              \<and> hasOwn (get_prop t ''locals'') ''layout''
            \<longrightarrow> pickLayout t = get_prop (get_prop t ''locals'') ''layout'')
       \<and> (\<not> hasOwn t ''layout'' \<and> \<not> hasOwn (get_prop t ''data'') ''layout''
              \<and> \<not> hasOwn (get_prop t ''locals'') ''layout'' \<and> hasOwn (get_prop t ''options'') ''layout''
            \<longrightarrow> pickLayout t = get_prop (get_prop t ''options'') ''layout'')
       \<and> (truthy (get_prop (JObj (layoutSettings st)) (to_str ext))
              \<and> \<not> truthy (get_prop (get_prop t ''options'') ''hasLayout'')
            \<longrightarrow> applyLayout env st ext t locals
                  = (Inl (TypeError ''undefined is not a function''), setHasLayout t))
       \<and> (\<not> (truthy (get_prop (JObj (layoutSettings st)) (to_str ext))
                \<and> \<not> truthy (get_prop (get_prop t ''options'') ''hasLayout''))
            \<longrightarrow> applyLayout env st ext t locals = (Inr (get_prop t ''content''), t))"
proof -
  have "hasOwn t ''layout'' \<longrightarrow> pickLayout t = get_prop t ''layout''"
    using pickLayout_own [OF assms(1)] by simp
  moreover have "\<not> hasOwn t ''layout'' \<and> hasOwn (get_prop t ''data'') ''layout''
      \<longrightarrow> pickLayout t = get_prop (get_prop t ''data'') ''layout''"
    using pickLayout_data [OF assms(1)] by simp
  moreover have "\<not> hasOwn t ''layout'' \<and> \<not> hasOwn (get_prop t ''data'') ''layout''
        \<and> hasOwn (get_prop t ''locals'') ''layout''
      \<longrightarrow> pickLayout t = get_prop (get_prop t ''locals'') ''layout''"
    using pickLayout_locals [OF assms(1)] by simp
  moreover have "\<not> hasOwn t ''layout'' \<and> \<not> hasOwn (get_prop t ''data'') ''layout''
        \<and> \<not> hasOwn (get_prop t ''locals'') ''layout'' \<and> hasOwn (get_prop t ''options'') ''layout''
      \<longrightarrow> pickLayout t = get_prop (get_prop t ''options'') ''layout''"
    using pickLayout_options [OF assms(1)] by simp
  moreover have "truthy (get_prop (JObj (layoutSettings st)) (to_str ext))
        \<and> \<not> truthy (get_prop (get_prop t ''options'') ''hasLayout'')
      \<longrightarrow> applyLayout env st ext t locals
            = (Inl (TypeError ''undefined is not a function''), setHasLayout t)"
    using applyLayout_unmarked [OF assms] by blast
  moreover have "\<not> (truthy (get_prop (JObj (layoutSettings st)) (to_str ext))
          \<and> \<not> truthy (get_prop (get_prop t ''options'') ''hasLayout''))
      \<longrightarrow> applyLayout env st ext t locals = (Inr (get_prop t ''content''), t)"
    using applyLayout_marked [OF assms] applyLayout_no_engine [OF assms(1)] by blast
  ultimately show ?thesis by blast
qed

text \<open>
  C4, witness: \<open>pickLayout\<close> on a record for each of the four places; on the default
  instance, \<open>applyLayout\<close> throws for the page that names \<open>default.md\<close> itself, and
  returns the content \<open>X\<close> unwrapped for the same page once it is marked and for an
  extension that has no layout engine.
\<close>

theorem applyLayout_layout_resolution_witness:
  "pickLayout page_own_layout = JStr ''default.md''
   \<and> pickLayout page_data_layout = JStr ''default.md''
   \<and> pickLayout page_locals_layout = JStr ''default.md''
   \<and> pickLayout page_options_layout = JStr ''default.md''
   \<and> applyLayout as_shipped initial_state (JStr ''.md'') page_own_layout (JObj [])
       = (Inl (TypeError ''undefined is not a function''), page_marked)
   \<and> applyLayout as_shipped initial_state (JStr ''.md'') page_marked (JObj [])
       = (Inr (JStr ''X''), page_marked)
   \<and> applyLayout as_shipped initial_state (JStr ''.txt'') page_own_layout (JObj [])
       = (Inr (JStr ''X''), page_own_layout)"
proof -
  have w1: "pickLayout page_own_layout = JStr ''default.md''"
    using applyLayout_layout_resolution [OF example_pages_wf(1,2)]
    by (simp add: page_own_layout_def)
  have w2: "pickLayout page_data_layout = JStr ''default.md''"
    using applyLayout_layout_resolution [OF example_pages_wf(3,4)]
    by (simp add: page_data_layout_def)
  have w3: "pickLayout page_locals_layout = JStr ''default.md''"
    using applyLayout_layout_resolution [OF example_pages_wf(5,6)]
    by (simp add: page_locals_layout_def)
  have w4: "pickLayout page_options_layout = JStr ''default.md''"
    using applyLayout_layout_resolution [OF example_pages_wf(7,8)]
    by (simp add: page_options_layout_def)
  have u: "\<not> truthy (get_prop (get_prop page_own_layout ''options'') ''hasLayout'')"
    "get_prop page_own_layout ''content'' = JStr ''X''"
    by (simp_all add: page_own_layout_def)
  have m: "truthy (get_prop (get_prop page_marked ''options'') ''hasLayout'')"
    "get_prop page_marked ''content'' = JStr ''X''"
    by (simp_all add: page_marked_def)
  have w5: "applyLayout as_shipped initial_state (JStr ''.md'') page_own_layout (JObj [])
      = (Inl (TypeError ''undefined is not a function''), page_marked)"
    using applyLayout_layout_resolution [OF example_pages_wf(1,2), of initial_state "JStr ''.md''"
        as_shipped "JObj []"] layout_engine_registered(1) u(1)
    by (simp add: setHasLayout_page)
  have w6: "applyLayout as_shipped initial_state (JStr ''.md'') page_marked (JObj [])
      = (Inr (JStr ''X''), page_marked)"
    using applyLayout_layout_resolution [OF example_pages_wf(9,10), of initial_state "JStr ''.md''"
        as_shipped "JObj []"] m
    by simp
  have w7: "applyLayout as_shipped initial_state (JStr ''.txt'') page_own_layout (JObj [])
      = (Inr (JStr ''X''), page_own_layout)"
    using applyLayout_layout_resolution [OF example_pages_wf(1,2), of initial_state "JStr ''.txt''"
        as_shipped "JObj []"] layout_engine_registered(2) u(2)
    by simp
  show ?thesis using w1 w2 w3 w4 w5 w6 w7 by simp
qed

text \<open>
  C5 is about the walk along a chain of layouts.  That walk is inside the layouts
  package: \<open>applyLayout\<close> calls \<open>layoutEngine.render\<close> once, and neither index.js nor
  lib/utils.js keeps a set of visited layouts or raises an error for a cycle.  No
  statement about it is made here.
\<close>

subsection \<open>Engines and rendering\<close>

lemma read_prop_write_same: "read_prop (write_prop h a k v) a k = v"
  by (simp add: read_prop_def write_prop_def update_conv')

lemma read_prop_write_other:
  "\<not> (c = a \<and> k' = k) \<Longrightarrow> read_prop (write_prop h a k v) c k' = read_prop h c k'"
  by (auto simp add: read_prop_def write_prop_def update_conv')

lemma has_own_write_other:
  "\<not> (c = a \<and> k' = k) \<Longrightarrow> has_own (write_prop h a k v) c k' = has_own h c k'"
  by (auto simp add: has_own_def write_prop_def update_conv')

lemma getEngine_result:
  assumes "engines_get env (heap st) (engines st) ext = Some a"
    and "read_prop (heap st) a ''options'' = ERef b"
  shows "getEngine env st ext = (Inr a, st\<lparr>heap := write_prop (heap st) b ''thisArg'' ENull\<rparr>)"
  using assms by (simp add: getEngine_def)

lemma option_getEngine: "option (snd (getEngine env st ext)) k = option st k"
  by (simp add: getEngine_def option_def split: option.splits engine_val.splits)

lemma getEngine_initial:
  "getEngine as_shipped initial_state (JStr ''.*'')
     = (Inr 5, initial_state\<lparr>heap := write_prop default_heap 6 ''thisArg'' ENull\<rparr>)"
  using getEngine_result [of as_shipped initial_state "JStr ''.*''" 5 6]
  by (simp add: initial_heaps initial_engine_found initial_engine_options)

lemma getEngine_no_preprocess:
  "getEngine failing_engines no_preprocess_state (JStr ''.*'')
     = (Inr 5, no_preprocess_state\<lparr>heap := write_prop default_heap 6 ''thisArg'' ENull\<rparr>)"
  "getEngine as_shipped no_preprocess_state (JStr ''.*'')
     = (Inr 5, no_preprocess_state\<lparr>heap := write_prop default_heap 6 ''thisArg'' ENull\<rparr>)"
  using getEngine_result [of failing_engines no_preprocess_state "JStr ''.*''" 5 6]
    getEngine_result [of as_shipped no_preprocess_state "JStr ''.*''" 5 6]
  by (simp_all add: initial_heaps initial_engine_found initial_engine_options)


lemma default_engine_functions:
  "has_own (write_prop default_heap 6 ''thisArg'' ENull) 5 ''renderSync''"
  "callable (write_prop default_heap 6 ''thisArg'' ENull)
     (read_prop (write_prop default_heap 6 ''thisArg'' ENull) 5 ''renderSync'')"
  "callable (write_prop default_heap 6 ''thisArg'' ENull)
     (read_prop (write_prop default_heap 6 ''thisArg'' ENull) 5 ''render'')"
  by (simp_all add: has_own_def callable_def read_prop_def write_prop_def default_heap_def
        plain_object_def function_object_def)



lemma preprocess_string_cached:
  "truthy (option st ''cache'') \<Longrightarrow>
   preprocess env st (JStr s) locals = (Inl (TypeError ''Cannot read property viewType of undefined''), st)"
  by (simp add: preprocess_def pickCached_def isString_def Let_def)

text \<open>
  With the \<open>cache\<close> option on, as it is by default, \<open>preprocess\<close> throws whatever it is
  given: for a string out of \<open>utils.pickCached\<close>, which is passed no \<open>thisArg\<close>, and
  for anything else out of the call \<open>utils.pickPartial\<close>.
\<close>

lemma preprocess_cached_throws:
  "truthy (option st ''cache'') \<Longrightarrow> \<exists>e. preprocess env st template0 locals = (Inl e, st)"
  by (simp add: preprocess_def pickCached_def pickPartial_def Let_def)

text \<open>
  C6, as amended.  An exception of the engine lookup or of \<open>preprocess\<close> (template
  lookup, normalization, layout, context) leaves \<open>render\<close> as an exception: both stand
  before the \<open>try\<close>.  An exception that \<open>engine.render\<close> throws is caught and
  handed to the callback as its error argument.  Nothing else makes \<open>render\<close> throw.
\<close>

theorem render_error_channel:
  "(getEngine env st (option st ''viewEngine'') = (Inl e, st1)
      \<longrightarrow> render env st content locals = (Threw e, st1))
   \<and> (getEngine env st (option st ''viewEngine'') = (Inr engine0, st1)
        \<and> truthy (option st1 ''preprocess'')
        \<and> preprocess env st1 content (if typeof locals = ''function'' then JObj [] else locals) = (Inl e, st2)
      \<longrightarrow> render env st content locals = (Threw e, st2))
   \<and> (getEngine env st (option st ''viewEngine'') = (Inr engine0, st1)
        \<and> (if truthy (option st1 ''preprocess'')
            then preprocess env st1 content (if typeof locals = ''function'' then JObj [] else locals)
            else (Inr \<lparr>pre_content = content, pre_engine = engine0,
                       pre_locals = (if typeof locals = ''function'' then JObj [] else locals)\<rparr>, st1))
           = (Inr pre, st2)
        \<and> callable (heap st2) (read_prop (heap st2) (pre_engine pre) ''render'')
        \<and> engine_render env (heap st2) (pre_engine pre) (pre_content pre) (pre_locals pre) = Throws err
      \<longrightarrow> render env st content locals = (Called_back (JErr err) Undefined, st2))
   \<and> (fst (render env st content locals) = Threw e
      \<longrightarrow> fst (getEngine env st (option st ''viewEngine'')) = Inl e
          \<or> (truthy (option (snd (getEngine env st (option st ''viewEngine''))) ''preprocess'')
             \<and> fst (preprocess env (snd (getEngine env st (option st ''viewEngine''))) content
                      (if typeof locals = ''function'' then JObj [] else locals)) = Inl e))"
proof -
  have throw_origin: "fst (render env st content locals) = Threw e
      \<Longrightarrow> fst (getEngine env st (option st ''viewEngine'')) = Inl e
          \<or> (truthy (option (snd (getEngine env st (option st ''viewEngine''))) ''preprocess'')
             \<and> fst (preprocess env (snd (getEngine env st (option st ''viewEngine''))) content
                      (if typeof locals = ''function'' then JObj [] else locals)) = Inl e)"
    by (auto simp add: render_def Let_def
          split: prod.splits sum.splits call_outcome.splits if_splits simp del: get_prop.simps)
  show ?thesis
    using throw_origin by (simp add: render_def Let_def del: get_prop.simps)
qed

text \<open>
  C6, witness: no engine registered; a template name on the default instance; an
  engine that throws, with preprocessing off.
\<close>

theorem render_error_channel_witness:
  "fst (render as_shipped no_engines_state (JStr ''x'') (JObj []))
     = Threw (TypeError ''Cannot read property options of undefined'')
   \<and> fst (render as_shipped initial_state (JStr ''home.md'') (JObj []))
     = Threw (TypeError ''Cannot read property viewType of undefined'')
   \<and> fst (render failing_engines no_preprocess_state (JStr ''x'') (JObj []))
     = Called_back (JErr (Error ''render failed'')) Undefined"
proof -
  have a: "getEngine as_shipped no_engines_state (option no_engines_state ''viewEngine'')
             = (Inl (TypeError ''Cannot read property options of undefined''), no_engines_state)"
    by (simp add: getEngine_def initial_lookups initial_heaps initial_engine_found)
  have w1: "render as_shipped no_engines_state (JStr ''x'') (JObj [])
              = (Threw (TypeError ''Cannot read property options of undefined''), no_engines_state)"
    using render_error_channel [where env = as_shipped and st = no_engines_state and ?st1.0 = no_engines_state
        and content = "JStr ''x''" and locals = "JObj []"] a
    by blast
  obtain engine0 st1 where g: "getEngine as_shipped initial_state (option initial_state ''viewEngine'')
      = (Inr engine0, st1)"
    using getEngine_initial by (simp add: initial_lookups)
  have o: "truthy (option st1 ''preprocess'')" "truthy (option st1 ''cache'')"
    using option_getEngine [of as_shipped initial_state "JStr ''.*''"] g
    by (simp_all add: initial_lookups)
  have p: "preprocess as_shipped st1 (JStr ''home.md'')
             (if typeof (JObj []) = ''function'' then JObj [] else JObj [])
           = (Inl (TypeError ''Cannot read property viewType of undefined''), st1)"
    using o by (simp add: preprocess_string_cached)
  have w2: "render as_shipped initial_state (JStr ''home.md'') (JObj [])
              = (Threw (TypeError ''Cannot read property viewType of undefined''), st1)"
    using render_error_channel [where env = as_shipped and st = initial_state and content = "JStr ''home.md''"
        and locals = "JObj []" and ?engine0.0 = engine0 and ?st1.0 = st1 and ?st2.0 = st1
        and e = "TypeError ''Cannot read property viewType of undefined''"] g o p
    by blast
  obtain st2 where g2: "getEngine failing_engines no_preprocess_state
      (option no_preprocess_state ''viewEngine'') = (Inr 5, st2)"
    and s2: "heap st2 = write_prop default_heap 6 ''thisArg'' ENull"
    using getEngine_no_preprocess(1) by (simp add: initial_lookups)
  have o2: "\<not> truthy (option st2 ''preprocess'')"
    using option_getEngine [of failing_engines no_preprocess_state "JStr ''.*''"] g2
    by (simp add: initial_lookups)
  have f2: "callable (heap st2) (read_prop (heap st2) 5 ''render'')"
    by (simp add: s2 default_engine_functions)
  have t2: "engine_render failing_engines (heap st2) 5 (JStr ''x'') (JObj []) = Throws (Error ''render failed'')"
    by (simp add: failing_engines_def as_shipped_def)
  have w3: "render failing_engines no_preprocess_state (JStr ''x'') (JObj [])
              = (Called_back (JErr (Error ''render failed'')) Undefined, st2)"
    using render_error_channel [where env = failing_engines and st = no_preprocess_state
        and content = "JStr ''x''" and locals = "JObj []" and ?engine0.0 = 5 and ?st1.0 = st2
        and ?st2.0 = st2 and err = "Error ''render failed''"
        and pre = "\<lparr>pre_content = JStr ''x'', pre_engine = 5, pre_locals = JObj []\<rparr>"]
      g2 o2 f2 t2
    by simp
  show ?thesis using w1 w2 w3 by simp
qed

text \<open>
  C6, counterexample to the claim as stated (no failure escapes \<open>render\<close> as an
  exception): on the default instance \<open>render('home.md', {}, cb)\<close> throws a TypeError
  out of \<open>utils.pickCached\<close>, and with no engine registered it throws out of
  \<open>getEngine\<close>; the callback is not called.
\<close>

theorem render_throws_counterexample:
  "fst (render as_shipped initial_state (JStr ''home.md'') (JObj []))
     = Threw (TypeError ''Cannot read property viewType of undefined'')
   \<and> fst (render as_shipped no_engines_state (JStr ''home.md'') (JObj []))
     = Threw (TypeError ''Cannot read property options of undefined'')"
proof -
  obtain engine0 st1 where g: "getEngine as_shipped initial_state (JStr ''.*'') = (Inr engine0, st1)"
    using getEngine_initial by simp
  have o: "option st1 ''preprocess'' = JBool True" "option st1 ''cache'' = JBool True"
    using option_getEngine [of as_shipped initial_state "JStr ''.*''"] g
    by (simp_all add: initial_lookups)
  have "preprocess as_shipped st1 (JStr ''home.md'') (JObj [])
          = (Inl (TypeError ''Cannot read property viewType of undefined''), st1)"
    using o by (simp add: preprocess_string_cached)
  then have a: "fst (render as_shipped initial_state (JStr ''home.md'') (JObj []))
     = Threw (TypeError ''Cannot read property viewType of undefined'')"
    using o g by (simp add: render_def initial_lookups del: get_prop.simps)
  have b: "fst (render as_shipped no_engines_state (JStr ''home.md'') (JObj []))
     = Threw (TypeError ''Cannot read property options of undefined'')"
    by (simp add: render_def getEngine_def initial_lookups initial_heaps initial_engine_found)
  show ?thesis using a b by simp
qed




text \<open>
  C10.  When the registry hands out an engine, an object or a function, whose
  \<open>options\<close> property names an object, \<open>getEngine\<close> returns that very engine, by its
  address, and writes \<open>null\<close> to the \<open>thisArg\<close> of the options object in the store.
  Every engine that shares the options object sees the write, and so does a later
  lookup under any extension the engine is registered for.  No other property of any
  stored object changes.  The store differs from the one before the call whenever
  \<open>thisArg\<close> was not \<open>null\<close>, as it is after a registration (\<open>thisArg: this\<close>,
  index.js:685).
\<close>

theorem getEngine_clears_thisArg:
  assumes "engines_get env (heap st) (engines st) ext = Some a"
    and "read_prop (heap st) a ''options'' = ERef b"
  shows "getEngine env st ext = (Inr a, st\<lparr>heap := write_prop (heap st) b ''thisArg'' ENull\<rparr>)
       \<and> read_prop (heap (snd (getEngine env st ext))) b ''thisArg'' = ENull
       \<and> (\<forall>c. read_prop (heap st) c ''options'' = ERef b
              \<longrightarrow> read_prop (heap (snd (getEngine env st ext))) c ''options'' = ERef b)
       \<and> (\<forall>c k. \<not> (c = b \<and> k = ''thisArg'')
              \<longrightarrow> read_prop (heap (snd (getEngine env st ext))) c k = read_prop (heap st) c k
                  \<and> has_own (heap (snd (getEngine env st ext))) c k = has_own (heap st) c k)
       \<and> (\<forall>c. source (heap (snd (getEngine env st ext)) c) = source (heap st c))
       \<and> (read_prop (heap st) b ''thisArg'' \<noteq> ENull
            \<longrightarrow> heap (snd (getEngine env st ext)) \<noteq> heap st)"
proof -
  let ?h = "write_prop (heap st) b ''thisArg'' ENull"
  have r: "getEngine env st ext = (Inr a, st\<lparr>heap := ?h\<rparr>)"
    using assms by (rule getEngine_result)
  have t: "read_prop ?h b ''thisArg'' = ENull"
    by (rule read_prop_write_same)
  have f: "\<forall>c k. \<not> (c = b \<and> k = ''thisArg'')
      \<longrightarrow> read_prop ?h c k = read_prop (heap st) c k \<and> has_own ?h c k = has_own (heap st) c k"
    by (simp add: read_prop_write_other has_own_write_other)
  have s: "\<forall>c. read_prop (heap st) c ''options'' = ERef b \<longrightarrow> read_prop ?h c ''options'' = ERef b"
    by (simp add: read_prop_write_other)
  have src: "\<forall>c. source (?h c) = source (heap st c)"
    by (simp add: write_prop_def)
  have n: "read_prop (heap st) b ''thisArg'' \<noteq> ENull \<longrightarrow> ?h \<noteq> heap st"
    using t by auto
  show ?thesis using r t f s src n by simp
qed

text \<open>
  C10, witness: the first lookup of \<open>.md\<close> on the default instance returns the engine
  at address 3 and clears the \<open>thisArg\<close> of its options at address 4, which held
  \<open>this\<close>; a lookup of \<open>.html\<close> after it finds the same engine, with the cleared options.
\<close>

theorem getEngine_clears_thisArg_witness:
  "getEngine as_shipped initial_state (JStr ''.md'')
     = (Inr 3, initial_state\<lparr>heap := write_prop (heap initial_state) 4 ''thisArg'' ENull\<rparr>)
   \<and> read_prop (heap initial_state) 4 ''thisArg'' = ERef 0
   \<and> read_prop (heap (snd (getEngine as_shipped initial_state (JStr ''.md'')))) 4 ''thisArg'' = ENull
   \<and> engines_get as_shipped (heap (snd (getEngine as_shipped initial_state (JStr ''.md''))))
        (engines (snd (getEngine as_shipped initial_state (JStr ''.md'')))) (JStr ''.html'') = Some 3
   \<and> read_prop (heap (snd (getEngine as_shipped initial_state (JStr ''.md'')))) 3 ''options'' = ERef 4
   \<and> heap (snd (getEngine as_shipped initial_state (JStr ''.md''))) \<noteq> heap initial_state"
proof -
  have h1: "engines_get as_shipped (heap initial_state) (engines initial_state) (JStr ''.md'') = Some 3"
    by (simp add: initial_heaps initial_engine_found)
  have h2: "read_prop (heap initial_state) 3 ''options'' = ERef 4"
    by (simp add: initial_heaps initial_engine_options)
  have h3: "read_prop (heap initial_state) 4 ''thisArg'' = ERef 0"
    by (simp add: initial_heaps read_prop_def default_heap_def engine_options_def plain_object_def)
  note w = getEngine_clears_thisArg [OF h1 h2]
  have e: "engines_get as_shipped (write_prop (heap initial_state) 4 ''thisArg'' ENull)
             (engines initial_state) (JStr ''.html'') = Some 3"
    by (simp add: initial_heaps as_shipped_def example_engines_get_def formatExt_def read_prop_def
          write_prop_def default_heap_def plain_object_def)
  have l: "engines_get as_shipped (heap (snd (getEngine as_shipped initial_state (JStr ''.md''))))
        (engines (snd (getEngine as_shipped initial_state (JStr ''.md'')))) (JStr ''.html'') = Some 3"
    using w [THEN conjunct1] e by simp
  have c1: "getEngine as_shipped initial_state (JStr ''.md'')
      = (Inr 3, initial_state\<lparr>heap := write_prop (heap initial_state) 4 ''thisArg'' ENull\<rparr>)"
    using w by blast
  have c2: "read_prop (heap (snd (getEngine as_shipped initial_state (JStr ''.md'')))) 4 ''thisArg'' = ENull"
    using w by blast
  have c3: "read_prop (heap (snd (getEngine as_shipped initial_state (JStr ''.md'')))) 3 ''options'' = ERef 4"
    using w h2 by blast
  have "read_prop (heap initial_state) 4 ''thisArg'' \<noteq> ENull"
    using h3 by simp
  then have c4: "heap (snd (getEngine as_shipped initial_state (JStr ''.md''))) \<noteq> heap initial_state"
    using w by blast
  show ?thesis using c1 h3 c2 l c3 c4 by blast
qed

subsection \<open>Template types and their helpers\<close>




text \<open>
  C9.  \<open>create\<close> registers the synchronous helper of \<open>defaultHelpers\<close>.  Called with a
  key that the collection does not hold, that helper makes no test: it renders the copy
  of \<open>undefined\<close> with \<open>renderSync\<close>, writes nothing to the console and, with the
  \<open>utils\<close> of this source tree, throws a TypeError into the render that called it.
  The helper of \<open>defaultAsyncHelpers\<close>, which \<open>create\<close> does not register, writes the
  warning and calls back with the empty string.
\<close>

theorem default_helper_missing_key:
  "map_of (helpers (snd (create fresh_state (JStr ''partial'') (JStr ''partials'') Undefined))) ''partial''
     = Some (DefaultHelper ''partial'' ''partials'')
   \<and> fst (defaultHelper_call as_shipped initial_state ''partials'' (JStr ''missing.md'') (JObj []))
     = Inl (TypeError ''undefined is not a function'')
   \<and> console (snd (defaultHelper_call as_shipped initial_state ''partials'' (JStr ''missing.md'') (JObj [])))
     = []
   \<and> defaultAsyncHelper_call as_shipped initial_state ''partial'' ''partials'' (JStr ''missing.md'') (JObj [])
     = (Called_back Null (JStr []),
        initial_state\<lparr>console := [''helper {{partial '' @ dq @ ''missing.md'' @ dq @ ''}} not found.'']\<rparr>)"
proof -
  have c: "map_of (helpers (snd (create fresh_state (JStr ''partial'') (JStr ''partials'') Undefined))) ''partial''
     = Some (DefaultHelper ''partial'' ''partials'')"
    by (simp add: create_def trackType_def defaultHelpers_def helpers_object_def toUpperCase_def extend_def
          fresh_state_def Let_def)
  obtain engine0 st1 where g: "getEngine as_shipped initial_state (option initial_state ''viewEngine'')
      = (Inr engine0, st1)"
    and s1: "st1 = initial_state\<lparr>heap := write_prop default_heap 6 ''thisArg'' ENull\<rparr>"
    using getEngine_initial by (simp add: initial_lookups)
  have o: "truthy (option st1 ''preprocess'')" "truthy (option st1 ''cache'')"
    using option_getEngine [of as_shipped initial_state "JStr ''.*''"] g
    by (simp_all add: initial_lookups)
  have p: "preprocess as_shipped st1 (JObj [(''_locals'', JObj [(''partial'', JObj [])])]) Undefined
             = (Inl (TypeError ''undefined is not a function''), st1)"
    using o by (simp add: preprocess_def pickCached_def isString_def pickPartial_def missing_util_def Let_def)
  have r: "renderSync as_shipped initial_state (JObj [(''_locals'', JObj [(''partial'', JObj [])])]) Undefined
             = (Inl (TypeError ''undefined is not a function''), st1)"
    using g o p by (simp add: renderSync_def del: get_prop.simps)
  have x: "extendLocals ''partial'' Undefined (JObj []) = Inr (JObj [(''_locals'', JObj [(''partial'', JObj [])])])"
    by (simp add: extendLocals_def extend_def isObject_def AList.merge_def)
  have k: "get_prop (JObj (cache initial_state)) ''partials'' = JObj []"
    by (simp add: initial_state_def fresh_state_def)
  have d: "defaultHelper_call as_shipped initial_state ''partials'' (JStr ''missing.md'') (JObj [])
             = (Inl (TypeError ''undefined is not a function''), st1)"
    using r x k get_prop.simps(1) [of "[]" "''missing.md''"]
    by (simp add: defaultHelper_call_def Let_def del: get_prop.simps)
  have ci: "console initial_state = []"
    by (simp add: initial_state_def fresh_state_def)
  have cs: "console st1 = []"
    by (simp add: s1 ci)
  have a: "defaultAsyncHelper_call as_shipped initial_state ''partial'' ''partials'' (JStr ''missing.md'') (JObj [])
     = (Called_back Null (JStr []),
        initial_state\<lparr>console := [''helper {{partial '' @ dq @ ''missing.md'' @ dq @ ''}} not found.'']\<rparr>)"
    using k ci get_prop.simps(1) [of "[]" "''missing.md''"]
    by (simp add: defaultAsyncHelper_call_def Let_def del: get_prop.simps)
  show ?thesis using c d cs a by simp
qed

end
